theory Spec2Isabelle
  imports Main "HOL-Library.AList" "HOL-Library.Sublist"
begin

section \<open>Python values that cross the wire\<close>

text \<open>
  The client of \<^verbatim>\<open>agent_template.py\<close> builds JSON bodies from its arguments and reads
  what \<^verbatim>\<open>json.loads\<close> decoded from the answer. A decoded value is one of Python's
  \<^verbatim>\<open>None\<close>, \<^verbatim>\<open>bool\<close>, \<^verbatim>\<open>int\<close>, \<^verbatim>\<open>float\<close>, \<^verbatim>\<open>str\<close>, \<^verbatim>\<open>list\<close> and \<^verbatim>\<open>dict\<close>.
  A finite float is \<open>m * 2 ^ e\<close>; only whether it is zero matters to the client.
  A \<^verbatim>\<open>str\<close> is a \<open>string\<close> whose characters are read as code points (below 256).
  A \<^verbatim>\<open>dict\<close> is the list of its items in insertion order; the first binding of a key
  is the one a lookup sees.
\<close>

datatype pyfloat = PyFinite int int | PyNaN | PyInf bool

datatype json =
    JNull
  | JBool bool
  | JInt int
  | JFloat pyfloat
  | JStr string
  | JArr "json list"
  | JObj "(string \<times> json) list"

text \<open>Truth value testing, as \<^verbatim>\<open>if x:\<close>, \<^verbatim>\<open>not x\<close> and \<^verbatim>\<open>x or y\<close> do it.\<close>

fun truthy :: "json \<Rightarrow> bool" where
  "truthy JNull = False"
| "truthy (JBool b) = b"
| "truthy (JInt i) = (i \<noteq> 0)"
| "truthy (JFloat (PyFinite m e)) = (m \<noteq> 0)"
| "truthy (JFloat PyNaN) = True"
| "truthy (JFloat (PyInf s)) = True"
| "truthy (JStr s) = (s \<noteq> [])"
| "truthy (JArr xs) = (xs \<noteq> [])"
| "truthy (JObj kvs) = (kvs \<noteq> [])"

section \<open>Exceptions\<close>

text \<open>
  \<^verbatim>\<open>BridgeError\<close> is the module's one exception class (lines 313-314). Its message is
  kept in parts: the port list of line 54, or the verb, the path and the detail
  \<^verbatim>\<open>data.get('error', data)\<close> of lines 71 and 82. The other constructors are the built-in
  exceptions that the library calls made by the client raise.
\<close>

datatype errmsg =
    NoBridgeFound "int list"
  | RequestFailed string string json

datatype pyexc =
    BridgeError errmsg
  | ConnectionRefusedError
  | TimeoutError
  | JSONDecodeError
  | AttributeError
  | TypeError
  | KeyError

fun is_bridge_error :: "pyexc + 'a \<Rightarrow> bool" where
  "is_bridge_error (Inl (BridgeError m)) = True"
| "is_bridge_error _ = False"

section \<open>Operations of Python's built-in types\<close>

text \<open>\<^verbatim>\<open>d.get(key, default)\<close>: only a dict has the attribute \<^verbatim>\<open>get\<close>.\<close>

fun dict_get :: "json \<Rightarrow> string \<Rightarrow> json \<Rightarrow> pyexc + json" where
  "dict_get (JObj kvs) k d = Inr (case map_of kvs k of None \<Rightarrow> d | Some v \<Rightarrow> v)"
| "dict_get JNull k d = Inl AttributeError"
| "dict_get (JBool b) k d = Inl AttributeError"
| "dict_get (JInt i) k d = Inl AttributeError"
| "dict_get (JFloat f) k d = Inl AttributeError"
| "dict_get (JStr s) k d = Inl AttributeError"
| "dict_get (JArr xs) k d = Inl AttributeError"

text \<open>\<^verbatim>\<open>d[key]\<close> with a string key.\<close>

fun dict_index :: "json \<Rightarrow> string \<Rightarrow> pyexc + json" where
  "dict_index (JObj kvs) k = (case map_of kvs k of None \<Rightarrow> Inl KeyError | Some v \<Rightarrow> Inr v)"
| "dict_index JNull k = Inl TypeError"
| "dict_index (JBool b) k = Inl TypeError"
| "dict_index (JInt i) k = Inl TypeError"
| "dict_index (JFloat f) k = Inl TypeError"
| "dict_index (JStr s) k = Inl TypeError"
| "dict_index (JArr xs) k = Inl TypeError"

text \<open>\<^verbatim>\<open>d[key] = value\<close>: an existing key keeps its place, a new one goes last.\<close>

fun dict_set :: "json \<Rightarrow> string \<Rightarrow> json \<Rightarrow> pyexc + json" where
  "dict_set (JObj kvs) k v = Inr (JObj (AList.update k v kvs))"
| "dict_set JNull k v = Inl TypeError"
| "dict_set (JBool b) k v = Inl TypeError"
| "dict_set (JInt i) k v = Inl TypeError"
| "dict_set (JFloat f) k v = Inl TypeError"
| "dict_set (JStr s) k v = Inl TypeError"
| "dict_set (JArr xs) k v = Inl TypeError"

text \<open>Iteration: a list gives its elements, a str its characters, a dict its keys.\<close>

fun py_iter :: "json \<Rightarrow> pyexc + json list" where
  "py_iter (JArr xs) = Inr xs"
| "py_iter (JStr s) = Inr (map (\<lambda>c. JStr [c]) s)"
| "py_iter (JObj kvs) = Inr (map (\<lambda>kv. JStr (fst kv)) kvs)"
| "py_iter JNull = Inl TypeError"
| "py_iter (JBool b) = Inl TypeError"
| "py_iter (JInt i) = Inl TypeError"
| "py_iter (JFloat f) = Inl TypeError"

text \<open>\<^verbatim>\<open>sep.join(xs)\<close>: every item must be a str.\<close>

fun join_items :: "string \<Rightarrow> json list \<Rightarrow> pyexc + string" where
  "join_items sep [] = Inr []"
| "join_items sep (JStr s # rest) =
     (case join_items sep rest of
        Inl e \<Rightarrow> Inl e
      | Inr r \<Rightarrow> Inr (if rest = [] then s else s @ sep @ r))"
| "join_items sep (x # rest) = Inl TypeError"

definition py_join :: "string \<Rightarrow> json \<Rightarrow> pyexc + string" where
  "py_join sep v = (case py_iter v of Inl e \<Rightarrow> Inl e | Inr xs \<Rightarrow> join_items sep xs)"

text \<open>\<^verbatim>\<open>s.endswith(suffix)\<close> on a str.\<close>

definition endswith :: "string \<Rightarrow> string \<Rightarrow> bool" where
  "endswith s suf = (length suf \<le> length s \<and> drop (length s - length suf) s = suf)"

text \<open>
  \<^verbatim>\<open>s.strip()\<close>: the characters for which \<^verbatim>\<open>str.isspace\<close> holds, among the code
  points below 256, are 9 to 13, 28 to 32, 133 and 160.
\<close>

definition py_isspace :: "char \<Rightarrow> bool" where
  "py_isspace c =
     (let n = (of_char c :: nat)
      in (9 \<le> n \<and> n \<le> 13) \<or> (28 \<le> n \<and> n \<le> 32) \<or> n = 133 \<or> n = 160)"

definition strip :: "string \<Rightarrow> string" where
  "strip s = rev (dropWhile py_isspace (rev (dropWhile py_isspace s)))"

text \<open>\<^verbatim>\<open>v.strip()\<close> on a decoded value: only a str has the attribute.\<close>

fun py_strip :: "json \<Rightarrow> pyexc + string" where
  "py_strip (JStr s) = Inr (strip s)"
| "py_strip JNull = Inl AttributeError"
| "py_strip (JBool b) = Inl AttributeError"
| "py_strip (JInt i) = Inl AttributeError"
| "py_strip (JFloat f) = Inl AttributeError"
| "py_strip (JArr xs) = Inl AttributeError"
| "py_strip (JObj kvs) = Inl AttributeError"

text \<open>\<^verbatim>\<open>str(n)\<close> of an int, as an f-string formats it.\<close>

fun digits :: "nat \<Rightarrow> string" where
  "digits n =
     (if n < 10 then [char_of (48 + n)]
      else digits (n div 10) @ [char_of (48 + n mod 10)])"

definition str_int :: "int \<Rightarrow> string" where
  "str_int i = (if i < 0 then CHR ''-'' # digits (nat (- i)) else digits (nat i))"

section \<open>Configuration (lines 26-29)\<close>

definition BRIDGE_PORTS :: "int list" where
  "BRIDGE_PORTS = [3131, 3132, 3133, 3134]"

definition BRIDGE_HOST :: string where
  "BRIDGE_HOST = ''127.0.0.1''"

definition DEFAULT_TIMEOUT :: int where
  "DEFAULT_TIMEOUT = 300"

section \<open>The transport\<close>

text \<open>
  One HTTP exchange is a request handed to \<^verbatim>\<open>http.client\<close> and what came of it. The
  request records the connection's host, port and timeout, the verb, the path and the
  JSON body (the dict that \<^verbatim>\<open>json.dumps\<close> serialises; \<open>None\<close> for a GET). The outcome is
  a refused connection, a timeout, or a response with its status and its body, which
  \<^verbatim>\<open>json.loads\<close> either decodes or rejects.
\<close>

datatype verb = GET | POST

record request =
  rq_host :: string
  rq_port :: int
  rq_timeout :: int
  rq_verb :: verb
  rq_path :: string
  rq_body :: "(string \<times> json) list option"

datatype body = Malformed | Decoded json

datatype outcome = Refused | TimedOut | Reply int body

type_synonym transport = "request \<Rightarrow> outcome"

section \<open>The client object and its methods' effects\<close>

text \<open>
  An \<^verbatim>\<open>AgentBridge\<close> object has the attributes \<^verbatim>\<open>host\<close> and \<^verbatim>\<open>port\<close> (lines 41-42).
  A method is run on the object: it returns a value or raises, leaves the object in some
  state, and has issued some requests, listed in order.
\<close>

record client =
  host :: string
  port :: int

type_synonym 'a prog = "client \<Rightarrow> (pyexc + 'a) \<times> client \<times> request list"

definition ret :: "'a \<Rightarrow> 'a prog" where
  "ret x = (\<lambda>s. (Inr x, s, []))"

definition raise :: "pyexc \<Rightarrow> 'a prog" where
  "raise e = (\<lambda>s. (Inl e, s, []))"

definition lift :: "pyexc + 'a \<Rightarrow> 'a prog" where
  "lift r = (\<lambda>s. (r, s, []))"

definition self :: "client prog" where
  "self = (\<lambda>s. (Inr s, s, []))"

definition send :: "transport \<Rightarrow> request \<Rightarrow> outcome prog" where
  "send t rq = (\<lambda>s. (Inr (t rq), s, [rq]))"

definition and_then :: "'a prog \<Rightarrow> ('a \<Rightarrow> 'b prog) \<Rightarrow> 'b prog" where
  "and_then m f =
     (\<lambda>s. case m s of
        (Inl e, s', l) \<Rightarrow> (Inl e, s', l)
      | (Inr x, s', l) \<Rightarrow> (case f x s' of (r, s'', l') \<Rightarrow> (r, s'', l @ l')))"

definition result :: "(pyexc + 'a) \<times> client \<times> request list \<Rightarrow> pyexc + 'a" where
  "result r = fst r"

definition after :: "(pyexc + 'a) \<times> client \<times> request list \<Rightarrow> client" where
  "after r = fst (snd r)"

definition issued :: "(pyexc + 'a) \<times> client \<times> request list \<Rightarrow> request list" where
  "issued r = snd (snd r)"

section \<open>Internal helpers (lines 46-83)\<close>

text \<open>
  \<^verbatim>\<open>_raw_get\<close> reads \<^verbatim>\<open>self.host\<close> only; it runs while \<^verbatim>\<open>__init__\<close> has set no port yet,
  so it takes the host. The status of the response is not looked at.
\<close>

definition probe :: "string \<Rightarrow> int \<Rightarrow> string \<Rightarrow> request" where
  "probe h p path =
     \<lparr>rq_host = h, rq_port = p, rq_timeout = 10, rq_verb = GET, rq_path = path, rq_body = None\<rparr>"

definition priv_raw_get :: "transport \<Rightarrow> string \<Rightarrow> int \<Rightarrow> string \<Rightarrow> pyexc + json" where
  "priv_raw_get t h p path =
     (case t (probe h p path) of
        Refused \<Rightarrow> Inl ConnectionRefusedError
      | TimedOut \<Rightarrow> Inl TimeoutError
      | Reply status b \<Rightarrow> (case b of Malformed \<Rightarrow> Inl JSONDecodeError | Decoded data \<Rightarrow> Inr data))"

text \<open>
  The loop of \<^verbatim>\<open>_discover_port\<close> over the ports still to try: the try block reads the
  health answer and its \<^verbatim>\<open>ok\<close>; \<^verbatim>\<open>except Exception: pass\<close> goes on to the next port.
\<close>

fun probe_ports :: "transport \<Rightarrow> string \<Rightarrow> int list \<Rightarrow> (pyexc + int) \<times> request list" where
  "probe_ports t h [] = (Inl (BridgeError (NoBridgeFound BRIDGE_PORTS)), [])"
| "probe_ports t h (p # ps) =
     (case (case priv_raw_get t h p ''/health'' of
              Inl e \<Rightarrow> Inl e
            | Inr data \<Rightarrow> dict_get data ''ok'' JNull) of
        Inr ok \<Rightarrow>
          if truthy ok then (Inr p, [probe h p ''/health''])
          else (case probe_ports t h ps of (r, l) \<Rightarrow> (r, probe h p ''/health'' # l))
      | Inl e \<Rightarrow> (case probe_ports t h ps of (r, l) \<Rightarrow> (r, probe h p ''/health'' # l)))"

definition priv_discover_port :: "transport \<Rightarrow> string \<Rightarrow> (pyexc + int) \<times> request list" where
  "priv_discover_port t h = probe_ports t h BRIDGE_PORTS"

text \<open>
  \<^verbatim>\<open>__init__(host, port)\<close>: \<^verbatim>\<open>port or self._discover_port()\<close> takes the port given
  when it is truthy (neither \<^verbatim>\<open>None\<close> nor 0).
\<close>

definition init :: "transport \<Rightarrow> string \<Rightarrow> int option \<Rightarrow> (pyexc + client) \<times> request list" where
  "init t h p =
     (let discovered =
            (case priv_discover_port t h of
               (Inl e, l) \<Rightarrow> (Inl e, l)
             | (Inr q, l) \<Rightarrow> (Inr \<lparr>host = h, port = q\<rparr>, l))
      in case p of
           None \<Rightarrow> discovered
         | Some q \<Rightarrow> if q \<noteq> 0 then (Inr \<lparr>host = h, port = q\<rparr>, []) else discovered)"

text \<open>
  Lines 67-72 and 78-83 are the same up to the verb in the message: read the response,
  decode it, and raise \<^verbatim>\<open>BridgeError\<close> when \<^verbatim>\<open>ok\<close> is falsy and the status is 400 or more.
  They work on local values only, so they are a function of what the transport gave.
\<close>

definition receive :: "string \<Rightarrow> string \<Rightarrow> outcome \<Rightarrow> pyexc + json" where
  "receive v path out =
     (case out of
        Refused \<Rightarrow> Inl ConnectionRefusedError
      | TimedOut \<Rightarrow> Inl TimeoutError
      | Reply status b \<Rightarrow>
          (case b of
             Malformed \<Rightarrow> Inl JSONDecodeError
           | Decoded data \<Rightarrow>
               (case dict_get data ''ok'' JNull of
                  Inl e \<Rightarrow> Inl e
                | Inr ok \<Rightarrow>
                    if \<not> truthy ok \<and> status \<ge> 400
                    then (case dict_get data ''error'' data of
                            Inl e \<Rightarrow> Inl e
                          | Inr detail \<Rightarrow> Inl (BridgeError (RequestFailed v path detail)))
                    else Inr data)))"

definition get_request :: "client \<Rightarrow> string \<Rightarrow> request" where
  "get_request c path =
     \<lparr>rq_host = host c, rq_port = port c, rq_timeout = DEFAULT_TIMEOUT + 10,
      rq_verb = GET, rq_path = path, rq_body = None\<rparr>"

definition post_request :: "client \<Rightarrow> string \<Rightarrow> (string \<times> json) list \<Rightarrow> int \<Rightarrow> request" where
  "post_request c path b timeout =
     \<lparr>rq_host = host c, rq_port = port c, rq_timeout = timeout + 10,
      rq_verb = POST, rq_path = path, rq_body = Some b\<rparr>"

definition priv_get :: "transport \<Rightarrow> string \<Rightarrow> json prog" where
  "priv_get t path =
     and_then self (\<lambda>c.
     and_then (send t (get_request c path)) (\<lambda>out.
     lift (receive ''GET'' path out)))"

definition priv_post :: "transport \<Rightarrow> string \<Rightarrow> (string \<times> json) list \<Rightarrow> int \<Rightarrow> json prog" where
  "priv_post t path b timeout =
     and_then self (\<lambda>c.
     and_then (send t (post_request c path b timeout)) (\<lambda>out.
     lift (receive ''POST'' path out)))"

section \<open>Public methods (lines 87-308)\<close>

text \<open>
  Arguments have the types of their annotations: a \<^verbatim>\<open>str\<close> is truthy when it is not
  empty, an \<^verbatim>\<open>int\<close> when it is not 0, an optional list when it is given and not empty.
  Python's default values are passed by the caller.
\<close>

definition nl :: string where
  "nl = [CHR 0x0A]"

definition dq :: string where
  "dq = [CHR 0x22]"

definition given :: "string list option \<Rightarrow> bool" where
  "given cf = (case cf of None \<Rightarrow> False | Some xs \<Rightarrow> xs \<noteq> [])"

definition str_list :: "string list option \<Rightarrow> json" where
  "str_list cf = (case cf of None \<Rightarrow> JNull | Some xs \<Rightarrow> JArr (map JStr xs))"

definition health :: "transport \<Rightarrow> json prog" where
  "health t = priv_get t ''/health''"

definition workspace_info :: "transport \<Rightarrow> json prog" where
  "workspace_info t = priv_get t ''/workspace-info''"

definition log :: "transport \<Rightarrow> json prog" where
  "log t = and_then (priv_get t ''/log'') (\<lambda>d. lift (dict_get d ''entries'' (JArr [])))"

definition prompt_body ::
  "string \<Rightarrow> string \<Rightarrow> string \<Rightarrow> int \<Rightarrow> string list option \<Rightarrow> (string \<times> json) list" where
  "prompt_body p model system timeout context_files =
     [(''prompt'', JStr p), (''timeout'', JInt timeout)]
     @ (if model \<noteq> [] then [(''model'', JStr model)] else [])
     @ (if system \<noteq> [] then [(''system'', JStr system)] else [])
     @ (if given context_files then [(''context_files'', str_list context_files)] else [])"

definition prompt ::
  "transport \<Rightarrow> string \<Rightarrow> string \<Rightarrow> string \<Rightarrow> int \<Rightarrow> string list option \<Rightarrow> json prog" where
  "prompt t p model system timeout context_files =
     and_then (priv_post t ''/prompt'' (prompt_body p model system timeout context_files) (timeout + 10))
       (\<lambda>r. lift (dict_get r ''text'' (JStr [])))"

definition copilot_task_body ::
  "string \<Rightarrow> bool \<Rightarrow> int \<Rightarrow> int \<Rightarrow> string list option \<Rightarrow> string \<Rightarrow> (string \<times> json) list" where
  "copilot_task_body p auto_accept watch_secs timeout context_files model =
     [(''prompt'', JStr p), (''auto_accept'', JBool auto_accept),
      (''watch_secs'', JInt watch_secs), (''timeout'', JInt timeout)]
     @ (if given context_files then [(''context_files'', str_list context_files)] else [])
     @ (if model \<noteq> [] then [(''model'', JStr model)] else [])"

definition copilot_task ::
  "transport \<Rightarrow> string \<Rightarrow> bool \<Rightarrow> int \<Rightarrow> int \<Rightarrow> string list option \<Rightarrow> string \<Rightarrow> json prog" where
  "copilot_task t p auto_accept watch_secs timeout context_files model =
     priv_post t ''/copilot-task''
       (copilot_task_body p auto_accept watch_secs timeout context_files model)
       (timeout + watch_secs + 30)"

definition read_file :: "transport \<Rightarrow> string \<Rightarrow> json prog" where
  "read_file t path =
     and_then (priv_get t (''/read-file?path='' @ path)) (\<lambda>d. lift (dict_get d ''content'' (JStr [])))"

definition write_file :: "transport \<Rightarrow> string \<Rightarrow> string \<Rightarrow> bool \<Rightarrow> json prog" where
  "write_file t path content create_dirs =
     and_then (priv_post t ''/write-file''
                 [(''path'', JStr path), (''content'', JStr content), (''create_dirs'', JBool create_dirs)]
                 DEFAULT_TIMEOUT)
       (\<lambda>d. lift (dict_get d ''bytes'' (JInt 0)))"

definition apply_edit :: "transport \<Rightarrow> string \<Rightarrow> string \<Rightarrow> string \<Rightarrow> json prog" where
  "apply_edit t path old_text new_text =
     and_then (priv_post t ''/apply-edit''
                 [(''path'', JStr path), (''old_text'', JStr old_text), (''new_text'', JStr new_text)]
                 DEFAULT_TIMEOUT)
       (\<lambda>d. lift (dict_get d ''ok'' (JBool False)))"

definition list_dir :: "transport \<Rightarrow> string \<Rightarrow> json prog" where
  "list_dir t path =
     and_then (priv_get t (''/list-dir?path='' @ path)) (\<lambda>d. lift (dict_get d ''entries'' (JArr [])))"

definition run_terminal_body :: "string \<Rightarrow> string \<Rightarrow> bool \<Rightarrow> int \<Rightarrow> (string \<times> json) list" where
  "run_terminal_body command cwd capture_output timeout =
     [(''command'', JStr command), (''capture_output'', JBool capture_output)]
     @ (if cwd \<noteq> [] then [(''cwd'', JStr cwd)] else [])
     @ (if capture_output then [(''timeout'', JInt timeout)] else [])"

definition run_terminal :: "transport \<Rightarrow> string \<Rightarrow> string \<Rightarrow> bool \<Rightarrow> int \<Rightarrow> json prog" where
  "run_terminal t command cwd capture_output timeout =
     priv_post t ''/run-terminal'' (run_terminal_body command cwd capture_output timeout) (timeout + 15)"

definition run_and_capture :: "transport \<Rightarrow> string \<Rightarrow> string \<Rightarrow> int \<Rightarrow> string prog" where
  "run_and_capture t command cwd timeout =
     and_then (run_terminal t command cwd True timeout) (\<lambda>r.
     and_then (lift (dict_get r ''stdout'' (JStr []))) (\<lambda>out.
     lift (py_strip out)))"

definition open_file_body :: "string \<Rightarrow> int \<Rightarrow> (string \<times> json) list" where
  "open_file_body path line =
     [(''path'', JStr path)] @ (if line \<noteq> 0 then [(''line'', JInt line)] else [])"

definition open_file :: "transport \<Rightarrow> string \<Rightarrow> int \<Rightarrow> json prog" where
  "open_file t path line =
     and_then (priv_post t ''/open-file'' (open_file_body path line) DEFAULT_TIMEOUT)
       (\<lambda>d. lift (dict_get d ''ok'' (JBool False)))"

definition diagnostics :: "transport \<Rightarrow> string \<Rightarrow> json prog" where
  "diagnostics t path =
     priv_get t (''/diagnostics'' @ (if path \<noteq> [] then ''?path='' @ path else []))"

definition exec_command :: "transport \<Rightarrow> string \<Rightarrow> json list \<Rightarrow> json prog" where
  "exec_command t command args =
     and_then (priv_post t ''/exec-command''
                 [(''command'', JStr command), (''args'', JArr args)] DEFAULT_TIMEOUT)
       (\<lambda>d. lift (dict_get d ''result'' JNull))"

definition show_message :: "transport \<Rightarrow> string \<Rightarrow> string \<Rightarrow> json prog" where
  "show_message t message level =
     and_then (priv_post t ''/show-message''
                 [(''message'', JStr message), (''level'', JStr level)] DEFAULT_TIMEOUT)
       (\<lambda>d. lift (dict_get d ''ok'' (JBool False)))"

definition keep_going :: "transport \<Rightarrow> json prog" where
  "keep_going t =
     and_then (priv_post t ''/keep-going'' [] DEFAULT_TIMEOUT)
       (\<lambda>d. lift (dict_get d ''commands_run'' (JArr [])))"

definition auto_dismiss :: "transport \<Rightarrow> bool \<Rightarrow> int \<Rightarrow> json prog" where
  "auto_dismiss t active interval_ms =
     and_then (priv_post t ''/auto-dismiss''
                 [(''active'', JBool active), (''interval_ms'', JInt interval_ms)] DEFAULT_TIMEOUT)
       (\<lambda>d. lift (dict_get d ''active'' (JBool active)))"

definition auto_dismiss_status :: "transport \<Rightarrow> json prog" where
  "auto_dismiss_status t =
     and_then (priv_get t ''/auto-dismiss'') (\<lambda>d. lift (dict_get d ''active'' (JBool False)))"

definition watch_start :: "transport \<Rightarrow> string \<Rightarrow> json prog" where
  "watch_start t label =
     and_then (priv_post t ''/watch-start'' [(''label'', JStr label)] DEFAULT_TIMEOUT)
       (\<lambda>d. lift (dict_get d ''watch_id'' (JStr [])))"

definition watch_result :: "transport \<Rightarrow> string \<Rightarrow> json prog" where
  "watch_result t watch_id =
     and_then (priv_get t (''/watch-result?id='' @ watch_id)) (\<lambda>d. lift (dict_get d ''files'' (JArr [])))"

definition changes_since :: "transport \<Rightarrow> int \<Rightarrow> json prog" where
  "changes_since t timestamp_ms =
     and_then (priv_get t (''/changes-since?ts='' @ str_int timestamp_ms))
       (\<lambda>d. lift (dict_get d ''files'' (JArr [])))"

definition pending_approvals :: "transport \<Rightarrow> json prog" where
  "pending_approvals t =
     and_then (priv_get t ''/pending-approvals'') (\<lambda>d. lift (dict_get d ''files'' (JArr [])))"

definition accept_edits :: "transport \<Rightarrow> json prog" where
  "accept_edits t =
     and_then (priv_post t ''/accept-edits'' [] DEFAULT_TIMEOUT)
       (\<lambda>d. lift (dict_get d ''ok'' (JBool False)))"

definition reject_edits :: "transport \<Rightarrow> json prog" where
  "reject_edits t =
     and_then (priv_post t ''/reject-edits'' [] DEFAULT_TIMEOUT)
       (\<lambda>d. lift (dict_get d ''ok'' (JBool False)))"

definition slack_post_body :: "string \<Rightarrow> string \<Rightarrow> (string \<times> json) list" where
  "slack_post_body text channel =
     [(''text'', JStr text)] @ (if channel \<noteq> [] then [(''channel'', JStr channel)] else [])"

definition slack_post :: "transport \<Rightarrow> string \<Rightarrow> string \<Rightarrow> json prog" where
  "slack_post t text channel =
     and_then (priv_post t ''/slack-post'' (slack_post_body text channel) DEFAULT_TIMEOUT)
       (\<lambda>d. lift (dict_get d ''ok'' (JBool False)))"

definition desktop_type :: "transport \<Rightarrow> string \<Rightarrow> string \<Rightarrow> string \<Rightarrow> int \<Rightarrow> json prog" where
  "desktop_type t app text window_title delay_ms =
     and_then (priv_post t ''/desktop-type''
                 ([(''app'', JStr app), (''text'', JStr text), (''delay_ms'', JInt delay_ms)]
                  @ (if window_title \<noteq> [] then [(''window_title'', JStr window_title)] else []))
                 DEFAULT_TIMEOUT)
       (\<lambda>d. lift (dict_get d ''ok'' (JBool False)))"

subsection \<open>The pipeline \<^verbatim>\<open>ask_then_run\<close> (lines 279-308)\<close>

text \<open>
  The loop of lines 292-298 over the items still to look at: \<^verbatim>\<open>f.endswith\<close> needs a
  str; the first item ending in \<^verbatim>\<open>.py\<close> or \<^verbatim>\<open>.js\<close> is run and the loop is left; when
  the items run out, \<^verbatim>\<open>output\<close> keeps its initial value, the empty string.
\<close>

definition run_command :: "string \<Rightarrow> string \<Rightarrow> string" where
  "run_command interpreter f = interpreter @ '' '' @ dq @ f @ dq"

fun run_first :: "transport \<Rightarrow> json list \<Rightarrow> string prog" where
  "run_first t [] = ret []"
| "run_first t (f # fs) =
     (case f of
        JStr s \<Rightarrow>
          if endswith s ''.py'' then run_and_capture t (run_command ''python'' s) [] 120
          else if endswith s ''.js'' then run_and_capture t (run_command ''node'' s) [] 120
          else run_first t fs
      | _ \<Rightarrow> raise AttributeError)"

definition slack_summary :: "string \<Rightarrow> string \<Rightarrow> string" where
  "slack_summary joined output =
     (''Task complete.'' @ nl @ ''Changed: '' @ (if joined \<noteq> [] then joined else ''none''))
     @ (if output \<noteq> [] then nl @ ''Output:'' @ nl @ ''```'' @ nl @ take 500 output @ nl @ ''```''
        else [])"

definition ask_then_run :: "transport \<Rightarrow> string \<Rightarrow> bool \<Rightarrow> bool \<Rightarrow> json prog" where
  "ask_then_run t task_description run_result slack_report =
     and_then (copilot_task t task_description True 60 DEFAULT_TIMEOUT None []) (\<lambda>res.
     and_then (if run_result
               then and_then (lift (dict_get res ''files_changed'' JNull)) (\<lambda>fc. ret (truthy fc))
               else ret False) (\<lambda>go.
     and_then (if go
               then and_then (lift (dict_index res ''files_changed'')) (\<lambda>fs.
                    and_then (lift (py_iter fs)) (run_first t))
               else ret []) (\<lambda>output.
     and_then (if slack_report
               then and_then (lift (dict_get res ''files_changed'' (JArr []))) (\<lambda>changed.
                    and_then (lift (py_join '', '' changed)) (\<lambda>joined.
                    and_then (slack_post t (slack_summary joined output) []) (\<lambda>posted. ret ())))
               else ret ()) (\<lambda>u.
     lift (dict_set res ''run_output'' (JStr output))))))"

subsection \<open>One invocation of a public method\<close>

datatype call =
    Health
  | WorkspaceInfo
  | Log
  | Prompt string string string int "string list option"
  | CopilotTask string bool int int "string list option" string
  | ReadFile string
  | WriteFile string string bool
  | ApplyEdit string string string
  | ListDir string
  | RunTerminal string string bool int
  | RunAndCapture string string int
  | OpenFile string int
  | Diagnostics string
  | ExecCommand string "json list"
  | ShowMessage string string
  | KeepGoing
  | AutoDismiss bool int
  | AutoDismissStatus
  | WatchStart string
  | WatchResult string
  | ChangesSince int
  | PendingApprovals
  | AcceptEdits
  | RejectEdits
  | SlackPost string string
  | DesktopType string string string int
  | AskThenRun string bool bool

fun invoke :: "transport \<Rightarrow> call \<Rightarrow> json prog" where
  "invoke t Health = health t"
| "invoke t WorkspaceInfo = workspace_info t"
| "invoke t Log = log t"
| "invoke t (Prompt p model system timeout context_files) = prompt t p model system timeout context_files"
| "invoke t (CopilotTask p auto_accept watch_secs timeout context_files model) =
     copilot_task t p auto_accept watch_secs timeout context_files model"
| "invoke t (ReadFile path) = read_file t path"
| "invoke t (WriteFile path content create_dirs) = write_file t path content create_dirs"
| "invoke t (ApplyEdit path old_text new_text) = apply_edit t path old_text new_text"
| "invoke t (ListDir path) = list_dir t path"
| "invoke t (RunTerminal command cwd capture_output timeout) =
     run_terminal t command cwd capture_output timeout"
| "invoke t (RunAndCapture command cwd timeout) =
     and_then (run_and_capture t command cwd timeout) (\<lambda>s. ret (JStr s))"
| "invoke t (OpenFile path line) = open_file t path line"
| "invoke t (Diagnostics path) = diagnostics t path"
| "invoke t (ExecCommand command args) = exec_command t command args"
| "invoke t (ShowMessage message level) = show_message t message level"
| "invoke t KeepGoing = keep_going t"
| "invoke t (AutoDismiss active interval_ms) = auto_dismiss t active interval_ms"
| "invoke t AutoDismissStatus = auto_dismiss_status t"
| "invoke t (WatchStart label) = watch_start t label"
| "invoke t (WatchResult watch_id) = watch_result t watch_id"
| "invoke t (ChangesSince timestamp_ms) = changes_since t timestamp_ms"
| "invoke t PendingApprovals = pending_approvals t"
| "invoke t AcceptEdits = accept_edits t"
| "invoke t RejectEdits = reject_edits t"
| "invoke t (SlackPost text channel) = slack_post t text channel"
| "invoke t (DesktopType app text window_title delay_ms) = desktop_type t app text window_title delay_ms"
| "invoke t (AskThenRun task_description run_result slack_report) =
     ask_then_run t task_description run_result slack_report"

section \<open>Notions used in the statements\<close>

text \<open>The health probe of line 49 to one port.\<close>

definition health_probe :: "string \<Rightarrow> int \<Rightarrow> request" where
  "health_probe h p = probe h p ''/health''"

text \<open>
  A port qualifies when its probe neither raises nor lacks a truthy \<^verbatim>\<open>ok\<close>: the
  condition under which line 51 is reached.
\<close>

definition qualifies :: "transport \<Rightarrow> string \<Rightarrow> int \<Rightarrow> bool" where
  "qualifies t h p =
     (case priv_raw_get t h p ''/health'' of
        Inl e \<Rightarrow> False
      | Inr data \<Rightarrow> (case dict_get data ''ok'' JNull of Inl e \<Rightarrow> False | Inr ok \<Rightarrow> truthy ok))"

text \<open>What \<^verbatim>\<open>data.get("ok")\<close> reads from a decoded dict.\<close>

definition ok_of :: "(string \<times> json) list \<Rightarrow> json" where
  "ok_of kvs = (case map_of kvs ''ok'' of None \<Rightarrow> JNull | Some v \<Rightarrow> v)"

text \<open>
  An outcome is accepted when \<^verbatim>\<open>_get\<close> and \<^verbatim>\<open>_post\<close> return on it, and rejected when
  they raise \<^verbatim>\<open>BridgeError\<close> on it. (The verb and the path only go into the message.)
\<close>

definition accepted :: "outcome \<Rightarrow> bool" where
  "accepted out = (case receive [] [] out of Inl e \<Rightarrow> False | Inr d \<Rightarrow> True)"

definition rejected :: "outcome \<Rightarrow> bool" where
  "rejected out = is_bridge_error (receive [] [] out)"

text \<open>The one method that chains calls.\<close>

definition is_pipeline :: "call \<Rightarrow> bool" where
  "is_pipeline c = (case c of AskThenRun d rr sr \<Rightarrow> True | _ \<Rightarrow> False)"

text \<open>
  The words of the description of \<^verbatim>\<open>ask_then_run\<close>: the first changed file whose name
  ends in \<^verbatim>\<open>.py\<close> or \<^verbatim>\<open>.js\<close>, the interpreter it is run with, the file chosen when
  running is asked for, and the names joined by a comma and a space.
\<close>

definition first_runnable :: "string list \<Rightarrow> string option" where
  "first_runnable fs = find (\<lambda>f. endswith f ''.py'' \<or> endswith f ''.js'') fs"

definition interpreter :: "string \<Rightarrow> string" where
  "interpreter f = (if endswith f ''.py'' then ''python'' else ''node'')"

definition chosen :: "bool \<Rightarrow> string list \<Rightarrow> string option" where
  "chosen run_result fs = (if run_result then first_runnable fs else None)"

fun comma_joined :: "string list \<Rightarrow> string" where
  "comma_joined [] = []"
| "comma_joined [f] = f"
| "comma_joined (f # g # fs) = f @ '', '' @ comma_joined (g # fs)"

text \<open>
  The command line a file is run with: the interpreter, a space, and the name between
  double quotes. The text of the Slack summary: the names changed (or \<^verbatim>\<open>none\<close>), and
  the first 500 characters of the output in a code fence when there is output.
\<close>

definition shell_command :: "string \<Rightarrow> string" where
  "shell_command f = interpreter f @ '' '' @ [CHR 0x22] @ f @ [CHR 0x22]"

definition summary_text :: "string list \<Rightarrow> string \<Rightarrow> string" where
  "summary_text fs captured =
     ''Task complete.'' @ [CHR 0x0A] @ ''Changed: ''
     @ (if comma_joined fs = [] then ''none'' else comma_joined fs)
     @ (if captured = [] then []
        else [CHR 0x0A] @ ''Output:'' @ [CHR 0x0A] @ ''```'' @ [CHR 0x0A] @ take 500 captured
             @ [CHR 0x0A] @ ''```'')"

text \<open>
  The three requests of \<^verbatim>\<open>ask_then_run\<close> as they go to the client's host and port,
  written out: \<^verbatim>\<open>copilot_task(task_description, auto_accept=True)\<close>, the captured run
  of a command, and the Slack post of a text.
\<close>

definition copilot_request :: "client \<Rightarrow> string \<Rightarrow> request" where
  "copilot_request s task_description =
     \<lparr>rq_host = host s, rq_port = port s, rq_timeout = 400, rq_verb = POST,
      rq_path = ''/copilot-task'',
      rq_body = Some [(''prompt'', JStr task_description), (''auto_accept'', JBool True),
                      (''watch_secs'', JInt 60), (''timeout'', JInt 300)]\<rparr>"

definition run_request :: "client \<Rightarrow> string \<Rightarrow> request" where
  "run_request s command =
     \<lparr>rq_host = host s, rq_port = port s, rq_timeout = 145, rq_verb = POST,
      rq_path = ''/run-terminal'',
      rq_body = Some [(''command'', JStr command), (''capture_output'', JBool True),
                      (''timeout'', JInt 120)]\<rparr>"

definition slack_request :: "client \<Rightarrow> string \<Rightarrow> request" where
  "slack_request s text =
     \<lparr>rq_host = host s, rq_port = port s, rq_timeout = 310, rq_verb = POST,
      rq_path = ''/slack-post'', rq_body = Some [(''text'', JStr text)]\<rparr>"

text \<open>
  Three properties of a method body that composition preserves. A disciplined body
  leaves the object as it was, sends only to the object's host and port, sends nothing
  after a request that was not accepted, and raises \<^verbatim>\<open>BridgeError\<close> exactly when its last
  request was rejected. A body emits a list of paths when the paths it requests are a
  subsequence of the list. A body is coherent when its run depends on the transport only
  through the outcomes of the requests it issues.
\<close>

definition disciplined :: "transport \<Rightarrow> 'a prog \<Rightarrow> bool" where
  "disciplined t m =
     (\<forall>s. after (m s) = s
        \<and> (\<forall>rq \<in> set (issued (m s)). rq_host rq = host s \<and> rq_port rq = port s)
        \<and> (\<forall>rq \<in> set (butlast (issued (m s))). accepted (t rq))
        \<and> (\<not> isl (result (m s)) \<longrightarrow> (\<forall>rq \<in> set (issued (m s)). accepted (t rq)))
        \<and> (is_bridge_error (result (m s)) \<longleftrightarrow>
             issued (m s) \<noteq> [] \<and> rejected (t (last (issued (m s))))))"

definition emits :: "'a prog \<Rightarrow> string list \<Rightarrow> bool" where
  "emits m ps = (\<forall>s. subseq (map rq_path (issued (m s))) ps)"

definition coherent :: "(transport \<Rightarrow> 'a prog) \<Rightarrow> bool" where
  "coherent M =
     (\<forall>t1 t2 s. (\<forall>rq \<in> set (issued (M t1 s)). t2 rq = t1 rq) \<longrightarrow> M t2 s = M t1 s)"

text \<open>Concrete transports and a concrete client for the examples.\<close>

definition only_3133 :: transport where
  "only_3133 rq =
     (if rq_port rq = 3131 then Refused
      else if rq_port rq = 3132 then Reply 200 (Decoded (JObj [(''ok'', JBool False)]))
      else if rq_port rq = 3133 then Reply 503 (Decoded (JObj [(''ok'', JInt 1)]))
      else Reply 200 (Decoded (JObj [(''ok'', JBool True)])))"

definition always :: "outcome \<Rightarrow> transport" where
  "always out = (\<lambda>rq. out)"

definition local_3131 :: client where
  "local_3131 = \<lparr>host = BRIDGE_HOST, port = 3131\<rparr>"

definition pipeline_bridge :: transport where
  "pipeline_bridge rq =
     (if rq_path rq = ''/copilot-task''
      then Reply 200 (Decoded (JObj [(''ok'', JBool True),
             (''files_changed'', JArr [JStr ''notes.txt'', JStr ''a.py'', JStr ''b.js''])]))
      else if rq_path rq = ''/run-terminal''
      then Reply 200 (Decoded (JObj [(''stdout'', JStr ''  hi ''), (''exit_code'', JInt 0)]))
      else Reply 200 (Decoded (JObj [(''ok'', JBool True)])))"

definition node_bridge :: transport where
  "node_bridge rq =
     (if rq_path rq = ''/copilot-task''
      then Reply 200 (Decoded (JObj [(''files_changed'', JArr [JStr ''x.txt'', JStr ''b.js'', JStr ''a.py''])]))
      else Reply 200 (Decoded (JObj [(''exit_code'', JInt 0)])))"

definition health_only :: transport where
  "health_only rq =
     (if rq_path rq = ''/health'' then Reply 200 (Decoded (JObj [(''ok'', JBool True)]))
      else Refused)"

section \<open>Running the helpers\<close>

lemmas run_defs = result_def after_def issued_def

lemmas method_defs =
  health_def workspace_info_def log_def prompt_def copilot_task_def read_file_def write_file_def
  apply_edit_def list_dir_def run_terminal_def run_and_capture_def open_file_def diagnostics_def
  exec_command_def show_message_def keep_going_def auto_dismiss_def auto_dismiss_status_def
  watch_start_def watch_result_def changes_since_def pending_approvals_def accept_edits_def
  reject_edits_def slack_post_def desktop_type_def

lemma and_then_apply:
  "and_then m f s =
     (case m s of
        (Inl e, s', l) \<Rightarrow> (Inl e, s', l)
      | (Inr x, s', l) \<Rightarrow> (case f x s' of (r, s'', l') \<Rightarrow> (r, s'', l @ l')))"
  by (simp add: and_then_def)

lemma and_then_run:
  "m s = (Inr x, s', l) \<Longrightarrow> and_then m f s = (case f x s' of (r, s'', l') \<Rightarrow> (r, s'', l @ l'))"
  by (simp add: and_then_def)

lemma and_then_cases:
  obtains (raised) e s' l where "m s = (Inl e, s', l)" "and_then m f s = (Inl e, s', l)"
  | (returned) x s' l r s'' l' where "m s = (Inr x, s', l)" "f x s' = (r, s'', l')"
       "and_then m f s = (r, s'', l @ l')"
proof (cases "m s")
  case (fields r s' l)
  show ?thesis
  proof (cases r)
    case (Inl e)
    with fields show ?thesis
      by (intro raised [of e s' l]) (simp_all add: and_then_def)
  next
    case (Inr x)
    obtain r' s'' l' where f: "f x s' = (r', s'', l')"
      by (cases "f x s'")
    with fields Inr show ?thesis
      by (intro returned [of x s' l r' s'' l']) (simp_all add: and_then_def)
  qed
qed

lemma issued_and_then_prefix: "prefix (issued (m s)) (issued (and_then m f s))"
  by (cases rule: and_then_cases [of m s f]) (simp_all add: run_defs)

lemma priv_get_run:
  "priv_get t path s = (receive ''GET'' path (t (get_request s path)), s, [get_request s path])"
  by (simp add: priv_get_def and_then_def self_def send_def lift_def)

lemma priv_post_run:
  "priv_post t path b timeout s =
     (receive ''POST'' path (t (post_request s path b timeout)), s, [post_request s path b timeout])"
  by (simp add: priv_post_def and_then_def self_def send_def lift_def)

lemma unwrap_run:
  "m s = (r, s', l) \<Longrightarrow>
   and_then m (\<lambda>d. lift (g d)) s = (case r of Inl e \<Rightarrow> Inl e | Inr d \<Rightarrow> g d, s', l)"
  by (simp add: and_then_def lift_def split: sum.splits)

lemma unwrap_get_run:
  "and_then (priv_get t path) (\<lambda>d. lift (g d)) s =
     (case receive ''GET'' path (t (get_request s path)) of Inl e \<Rightarrow> Inl e | Inr d \<Rightarrow> g d,
      s, [get_request s path])"
  by (simp add: unwrap_run [OF priv_get_run])

lemma unwrap_post_run:
  "and_then (priv_post t path b timeout) (\<lambda>d. lift (g d)) s =
     (case receive ''POST'' path (t (post_request s path b timeout)) of Inl e \<Rightarrow> Inl e | Inr d \<Rightarrow> g d,
      s, [post_request s path b timeout])"
  by (simp add: unwrap_run [OF priv_post_run])

section \<open>What \<^verbatim>\<open>_get\<close> and \<^verbatim>\<open>_post\<close> do with an outcome\<close>

lemma is_bridge_error_Inl: "is_bridge_error (Inl e) = (\<exists>m. e = BridgeError m)"
  by (cases e) simp_all

lemma receive_bridge_error:
  "is_bridge_error (receive v path out) =
     (\<exists>status data ok. out = Reply status (Decoded data) \<and> dict_get data ''ok'' JNull = Inr ok
        \<and> \<not> truthy ok \<and> 400 \<le> status)"
proof (cases out)
  case (Reply status b)
  show ?thesis
  proof (cases b)
    case Malformed
    with Reply show ?thesis by (simp add: receive_def)
  next
    case (Decoded data)
    with Reply show ?thesis
      by (cases data) (simp_all add: receive_def)
  qed
qed (simp_all add: receive_def)

lemma receive_truthy_ok:
  "dict_get data ''ok'' JNull = Inr ok \<Longrightarrow> truthy ok \<Longrightarrow>
   receive v path (Reply status (Decoded data)) = Inr data"
  by (simp add: receive_def)

lemma receive_below_400:
  "dict_get data ''ok'' JNull = Inr ok \<Longrightarrow> status < 400 \<Longrightarrow>
   receive v path (Reply status (Decoded data)) = Inr data"
  by (simp add: receive_def)

lemma receive_accepts:
  "status < 400 \<or> truthy (ok_of kvs) \<Longrightarrow>
   receive v path (Reply status (Decoded (JObj kvs))) = Inr (JObj kvs)"
  by (auto simp: receive_def ok_of_def)

lemma receive_isl: "isl (receive v path out) = isl (receive v' path' out)"
  by (auto simp: receive_def split: outcome.splits body.splits sum.splits)

lemma receive_is_bridge_error:
  "is_bridge_error (receive v path out) = is_bridge_error (receive v' path' out)"
  by (auto simp: receive_def split: outcome.splits body.splits sum.splits)

lemma accepted_receive: "accepted out = (\<not> isl (receive v path out))"
  using receive_isl [of v path out "[]" "[]"]
  by (simp add: accepted_def split: sum.splits)

lemma rejected_receive: "rejected out = is_bridge_error (receive v path out)"
  using receive_is_bridge_error [of v path out "[]" "[]"]
  by (simp add: rejected_def)

lemma accepted_not_rejected: "accepted out \<Longrightarrow> \<not> rejected out"
  by (cases "receive [] [] out") (simp_all add: accepted_def rejected_def)

section \<open>The built-in operations never raise \<^verbatim>\<open>BridgeError\<close>\<close>

lemma not_bridge_dict_get: "\<not> is_bridge_error (dict_get d k v)"
  by (cases d) simp_all

lemma not_bridge_dict_index: "\<not> is_bridge_error (dict_index d k)"
  by (cases d) (simp_all split: option.splits)

lemma not_bridge_dict_set: "\<not> is_bridge_error (dict_set d k v)"
  by (cases d) simp_all

lemma not_bridge_py_iter: "\<not> is_bridge_error (py_iter v)"
  by (cases v) simp_all

lemma not_bridge_py_strip: "\<not> is_bridge_error (py_strip v)"
  by (cases v) simp_all

lemma not_bridge_join_items: "\<not> is_bridge_error (join_items sep xs)"
  by (induction sep xs rule: join_items.induct) (auto simp: is_bridge_error_Inl split: sum.splits)

lemma not_bridge_py_join: "\<not> is_bridge_error (py_join sep v)"
  using not_bridge_py_iter [of v] not_bridge_join_items
  by (auto simp: py_join_def is_bridge_error_Inl split: sum.splits)

lemmas not_bridge =
  not_bridge_dict_get not_bridge_dict_index not_bridge_dict_set not_bridge_py_iter
  not_bridge_py_strip not_bridge_py_join

section \<open>Every method body is disciplined\<close>

lemma disciplined_and_then:
  assumes m: "disciplined t m" and f: "\<And>x. disciplined t (f x)"
  shows "disciplined t (and_then m f)"
  unfolding disciplined_def
proof (intro allI)
  fix s
  from m have ms: "after (m s) = s"
    "\<forall>rq \<in> set (issued (m s)). rq_host rq = host s \<and> rq_port rq = port s"
    "\<forall>rq \<in> set (butlast (issued (m s))). accepted (t rq)"
    "\<not> isl (result (m s)) \<longrightarrow> (\<forall>rq \<in> set (issued (m s)). accepted (t rq))"
    "is_bridge_error (result (m s)) \<longleftrightarrow> issued (m s) \<noteq> [] \<and> rejected (t (last (issued (m s))))"
    by (simp_all add: disciplined_def)
  let ?P = "\<lambda>z. after z = s
        \<and> (\<forall>rq \<in> set (issued z). rq_host rq = host s \<and> rq_port rq = port s)
        \<and> (\<forall>rq \<in> set (butlast (issued z)). accepted (t rq))
        \<and> (\<not> isl (result z) \<longrightarrow> (\<forall>rq \<in> set (issued z). accepted (t rq)))
        \<and> (is_bridge_error (result z) \<longleftrightarrow> issued z \<noteq> [] \<and> rejected (t (last (issued z))))"
  show "?P (and_then m f s)"
  proof (cases rule: and_then_cases [of m s f])
    case (raised e s' l)
    with ms show ?thesis by (simp add: run_defs is_bridge_error_Inl)
  next
    case (returned x s' l r s'' l')
    from returned(1) ms(1) have s': "s' = s" by (simp add: run_defs)
    from f [of x] have fs: "after (f x s) = s"
      "\<forall>rq \<in> set (issued (f x s)). rq_host rq = host s \<and> rq_port rq = port s"
      "\<forall>rq \<in> set (butlast (issued (f x s))). accepted (t rq)"
      "\<not> isl (result (f x s)) \<longrightarrow> (\<forall>rq \<in> set (issued (f x s)). accepted (t rq))"
      "is_bridge_error (result (f x s)) \<longleftrightarrow> issued (f x s) \<noteq> [] \<and> rejected (t (last (issued (f x s))))"
      by (simp_all add: disciplined_def)
    from returned s' fs(1) have eq: "m s = (Inr x, s, l)" "f x s = (r, s, l')"
      "and_then m f s = (r, s, l @ l')"
      by (simp_all add: run_defs)
    have acc: "\<forall>rq \<in> set l. accepted (t rq)"
      using ms(4) eq(1) by (simp add: run_defs)
    have nrej: "l \<noteq> [] \<Longrightarrow> \<not> rejected (t (last l))"
      using acc accepted_not_rejected by auto
    show ?thesis
      using ms(2) fs(2,3,4,5) acc nrej eq
      by (cases "l' = []") (auto simp: run_defs butlast_append dest: in_set_butlastD)
  qed
qed

lemma disciplined_ret: "disciplined t (ret x)"
  by (simp add: disciplined_def ret_def run_defs)

lemma disciplined_lift: "\<not> is_bridge_error r \<Longrightarrow> disciplined t (lift r)"
  by (simp add: disciplined_def lift_def run_defs)

lemma disciplined_raise:
  "\<not> is_bridge_error (Inl e :: pyexc + 'a) \<Longrightarrow> disciplined t (raise e :: 'a prog)"
  by (simp add: disciplined_def raise_def run_defs)

lemma disciplined_if:
  "disciplined t a \<Longrightarrow> disciplined t b \<Longrightarrow> disciplined t (if c then a else b)"
  by simp

lemma disciplined_get: "disciplined t (priv_get t path)"
  by (simp add: disciplined_def priv_get_run run_defs get_request_def
      accepted_receive [of _ "''GET''" path] rejected_receive [of _ "''GET''" path])

lemma disciplined_post: "disciplined t (priv_post t path b timeout)"
  by (simp add: disciplined_def priv_post_run run_defs post_request_def
      accepted_receive [of _ "''POST''" path] rejected_receive [of _ "''POST''" path])

lemmas disciplined_intros =
  disciplined_and_then disciplined_ret disciplined_lift disciplined_if disciplined_get
  disciplined_post not_bridge

lemma disciplined_run_and_capture: "disciplined t (run_and_capture t command cwd timeout)"
  unfolding run_and_capture_def run_terminal_def
  by (intro disciplined_intros)

lemma disciplined_run_first: "disciplined t (run_first t fs)"
proof (induction fs)
  case Nil
  show ?case by (simp add: disciplined_ret)
next
  case (Cons f fs)
  show ?case
    by (cases f) (simp_all add: disciplined_run_and_capture disciplined_raise Cons.IH)
qed

lemma disciplined_slack_post: "disciplined t (slack_post t text channel)"
  unfolding slack_post_def
  by (intro disciplined_intros)

lemma disciplined_copilot_task:
  "disciplined t (copilot_task t p auto_accept watch_secs timeout context_files model)"
  unfolding copilot_task_def
  by (intro disciplined_intros)

lemma disciplined_ask_then_run: "disciplined t (ask_then_run t task_description run_result slack_report)"
  unfolding ask_then_run_def
  by (intro disciplined_intros disciplined_copilot_task disciplined_slack_post disciplined_run_first)

lemma disciplined_invoke: "disciplined t (invoke t c)"
  by (cases c; simp add: method_defs; intro conjI impI disciplined_intros disciplined_ask_then_run)

section \<open>The paths a method body requests\<close>

lemma emits_ret: "emits (ret x) []"
  by (simp add: emits_def ret_def run_defs)

lemma emits_lift: "emits (lift r) []"
  by (simp add: emits_def lift_def run_defs)

lemma emits_raise: "emits (raise e) []"
  by (simp add: emits_def raise_def run_defs)

lemma emits_post: "emits (priv_post t path b timeout) [path]"
  by (simp add: emits_def priv_post_run run_defs post_request_def)

lemma emits_weaken: "emits m ps \<Longrightarrow> subseq ps qs \<Longrightarrow> emits m qs"
  unfolding emits_def by (meson subseq_order.order_trans)

lemma emits_and_then:
  assumes m: "emits m ps" and f: "\<And>x. emits (f x) qs"
  shows "emits (and_then m f) (ps @ qs)"
  unfolding emits_def
proof (intro allI)
  fix s
  show "subseq (map rq_path (issued (and_then m f s))) (ps @ qs)"
  proof (cases rule: and_then_cases [of m s f])
    case (raised e s' l)
    have "subseq (map rq_path l) ps"
      using m raised(1) unfolding emits_def run_defs by (metis snd_conv)
    then have "subseq (map rq_path l @ []) (ps @ qs)"
      by (intro list_emb_append_mono) simp_all
    with raised(2) show ?thesis by (simp add: run_defs)
  next
    case (returned x s' l r s'' l')
    have a: "subseq (map rq_path l) ps"
      using m returned(1) unfolding emits_def run_defs by (metis snd_conv)
    have b: "subseq (map rq_path l') qs"
      using f [of x] returned(2) unfolding emits_def run_defs by (metis snd_conv)
    from a b have "subseq (map rq_path l @ map rq_path l') (ps @ qs)"
      by (rule list_emb_append_mono)
    with returned(3) show ?thesis by (simp add: run_defs)
  qed
qed

lemma emits_run_and_capture: "emits (run_and_capture t command cwd timeout) [''/run-terminal'']"
proof -
  have "emits (run_and_capture t command cwd timeout) ([''/run-terminal''] @ ([] @ []))"
    unfolding run_and_capture_def run_terminal_def
    by (intro emits_and_then emits_post emits_lift)
  then show ?thesis by simp
qed

lemma emits_run_first: "emits (run_first t fs) [''/run-terminal'']"
proof (induction fs)
  case Nil
  show ?case by (simp add: emits_weaken [OF emits_ret])
next
  case (Cons f fs)
  show ?case
    by (cases f) (simp_all add: emits_run_and_capture emits_weaken [OF emits_raise] Cons.IH)
qed

lemma emits_slack_post: "emits (slack_post t text channel) [''/slack-post'']"
proof -
  have "emits (slack_post t text channel) ([''/slack-post''] @ [])"
    unfolding slack_post_def
    by (intro emits_and_then emits_post emits_lift)
  then show ?thesis by simp
qed

lemma emits_ask_then_run:
  "emits (ask_then_run t task_description run_result slack_report)
     [''/copilot-task'', ''/run-terminal'', ''/slack-post'']"
proof -
  have go: "emits (if run_result
               then and_then (lift (dict_get res ''files_changed'' JNull)) (\<lambda>fc. ret (truthy fc))
               else ret False) []" for res
  proof -
    have "emits (and_then (lift (dict_get res ''files_changed'' JNull)) (\<lambda>fc. ret (truthy fc))) ([] @ [])"
      by (intro emits_and_then emits_lift emits_ret)
    then show ?thesis by (simp add: emits_ret)
  qed
  have run: "emits (if go
               then and_then (lift (dict_index res ''files_changed'')) (\<lambda>fs.
                    and_then (lift (py_iter fs)) (run_first t))
               else ret []) [''/run-terminal'']" for go res
  proof -
    have "emits (and_then (lift (dict_index res ''files_changed'')) (\<lambda>fs.
                    and_then (lift (py_iter fs)) (run_first t))) ([] @ ([] @ [''/run-terminal'']))"
      by (intro emits_and_then emits_lift emits_run_first)
    then show ?thesis by (simp add: emits_weaken [OF emits_ret])
  qed
  have slack: "emits (if slack_report
               then and_then (lift (dict_get res ''files_changed'' (JArr []))) (\<lambda>changed.
                    and_then (lift (py_join '', '' changed)) (\<lambda>joined.
                    and_then (slack_post t (slack_summary joined outp) []) (\<lambda>posted. ret ())))
               else ret ()) [''/slack-post'']" for res outp
  proof -
    have "emits (and_then (lift (dict_get res ''files_changed'' (JArr []))) (\<lambda>changed.
                    and_then (lift (py_join '', '' changed)) (\<lambda>joined.
                    and_then (slack_post t (slack_summary joined outp) []) (\<lambda>posted. ret ()))))
            ([] @ ([] @ ([''/slack-post''] @ [])))"
      by (intro emits_and_then emits_lift emits_slack_post emits_ret)
    then show ?thesis by (simp add: emits_weaken [OF emits_ret])
  qed
  have "emits (ask_then_run t task_description run_result slack_report)
     ([''/copilot-task''] @ ([] @ ([''/run-terminal''] @ ([''/slack-post''] @ []))))"
    unfolding ask_then_run_def copilot_task_def
    by (intro emits_and_then emits_post go run slack emits_lift)
  then show ?thesis by simp
qed

lemma issued_single:
  "\<not> is_pipeline c \<Longrightarrow> length (issued (invoke t c s)) = 1"
  by (cases c; simp add: is_pipeline_def method_defs and_then_apply priv_get_run priv_post_run lift_def ret_def
      issued_def split: sum.splits)

lemma copilot_request_post:
  "post_request s ''/copilot-task'' (copilot_task_body d True 60 300 None []) 390
     = copilot_request s d"
  by (simp add: copilot_request_def post_request_def copilot_task_body_def given_def)

lemma run_request_post:
  "post_request s ''/run-terminal'' (run_terminal_body command [] True 120) 135
     = run_request s command"
  by (simp add: run_request_def post_request_def run_terminal_body_def)

lemma slack_request_post:
  "post_request s ''/slack-post'' (slack_post_body text []) 300 = slack_request s text"
  by (simp add: slack_request_def post_request_def slack_post_body_def)

lemma issued_ask_then_run_first:
  "\<exists>l. issued (ask_then_run t d rr sr s) = copilot_request s d # l"
  using issued_and_then_prefix
    [of "copilot_task t d True 60 DEFAULT_TIMEOUT None []" s]
  by (auto simp: ask_then_run_def copilot_task_def priv_post_run issued_def prefix_def
      copilot_request_post DEFAULT_TIMEOUT_def)

lemma pipeline_cases:
  assumes "is_pipeline c"
  obtains d rr sr where "c = AskThenRun d rr sr"
  using assms by (cases c) (simp_all add: is_pipeline_def)

lemma issued_nonempty: "issued (invoke t c s) \<noteq> []"
proof (cases "is_pipeline c")
  case False
  then have "length (issued (invoke t c s)) = 1" by (rule issued_single)
  then show ?thesis by auto
next
  case True
  then obtain d rr sr where "c = AskThenRun d rr sr" by (rule pipeline_cases)
  then show ?thesis
    using issued_ask_then_run_first [of t d rr sr s] by auto
qed

lemma pipeline_paths:
  "subseq (map rq_path (issued (invoke t (AskThenRun d rr sr) s)))
     [''/copilot-task'', ''/run-terminal'', ''/slack-post'']"
  using emits_ask_then_run [of t d rr sr] by (simp add: emits_def)

lemma bridge_error_invoke:
  "is_bridge_error (result (invoke t c s)) \<longleftrightarrow>
     (\<exists>status data ok. t (last (issued (invoke t c s))) = Reply status (Decoded data)
        \<and> dict_get data ''ok'' JNull = Inr ok \<and> \<not> truthy ok \<and> 400 \<le> status)"
  using disciplined_invoke [of t c] issued_nonempty [of t c s]
  by (simp add: disciplined_def rejected_def receive_bridge_error)

section \<open>Every method body is coherent\<close>

lemma coherent_const: "coherent (\<lambda>t. m)"
  by (simp add: coherent_def)

lemma coherent_get: "coherent (\<lambda>t. priv_get t path)"
  by (simp add: coherent_def priv_get_run run_defs)

lemma coherent_post: "coherent (\<lambda>t. priv_post t path b timeout)"
  by (simp add: coherent_def priv_post_run run_defs)

lemma coherent_if: "coherent A \<Longrightarrow> coherent B \<Longrightarrow> coherent (\<lambda>t. if c then A t else B t)"
  by (cases c) simp_all

lemma coherent_and_then:
  assumes m: "coherent M" and f: "\<And>x. coherent (\<lambda>t. F t x)"
  shows "coherent (\<lambda>t. and_then (M t) (F t))"
  unfolding coherent_def
proof (intro allI impI)
  fix t1 t2 s
  assume agree: "\<forall>rq \<in> set (issued (and_then (M t1) (F t1) s)). t2 rq = t1 rq"
  have sub: "set (issued (M t1 s)) \<subseteq> set (issued (and_then (M t1) (F t1) s))"
    using issued_and_then_prefix [of "M t1" s "F t1"] by (auto simp: prefix_def)
  with agree m have same: "M t2 s = M t1 s"
    unfolding coherent_def by blast
  show "and_then (M t2) (F t2) s = and_then (M t1) (F t1) s"
  proof (cases rule: and_then_cases [of "M t1" s "F t1"])
    case (raised e s' l)
    with same show ?thesis by (simp add: and_then_def)
  next
    case (returned x s' l r s'' l')
    have "set (issued (F t1 x s')) \<subseteq> set (issued (and_then (M t1) (F t1) s))"
      using returned by (simp add: run_defs)
    with agree f [of x] have "F t2 x s' = F t1 x s'"
      unfolding coherent_def by blast
    with same returned(1) show ?thesis
      by (simp add: and_then_def)
  qed
qed

lemmas coherent_intros =
  coherent_and_then coherent_if coherent_get coherent_post coherent_const

lemma coherent_run_and_capture: "coherent (\<lambda>t. run_and_capture t command cwd timeout)"
  unfolding run_and_capture_def run_terminal_def
  by (intro coherent_intros)

lemma coherent_run_first: "coherent (\<lambda>t. run_first t fs)"
proof (induction fs)
  case Nil
  show ?case by (simp add: coherent_const)
next
  case (Cons f fs)
  show ?case
    by (cases f) (simp_all add: coherent_run_and_capture coherent_const coherent_if Cons.IH)
qed

lemma coherent_slack_post: "coherent (\<lambda>t. slack_post t text channel)"
  unfolding slack_post_def
  by (intro coherent_intros)

lemma coherent_ask_then_run: "coherent (\<lambda>t. ask_then_run t task_description run_result slack_report)"
  unfolding ask_then_run_def copilot_task_def
  by (intro coherent_and_then coherent_if coherent_post coherent_run_first coherent_slack_post
      coherent_const)

lemma coherent_invoke: "coherent (\<lambda>t. invoke t c)"
  by (cases c; simp add: method_defs; intro conjI impI coherent_intros coherent_ask_then_run)

section \<open>The single exception type\<close>

lemma is_bridge_error_iff: "is_bridge_error r = (\<exists>m. r = Inl (BridgeError m))"
  by (cases r) (simp_all add: is_bridge_error_Inl)

lemma in_butlast_or_last: "x \<in> set xs \<Longrightarrow> x \<in> set (butlast xs) \<or> x = last xs"
  by (cases xs rule: rev_cases) auto

text \<open>
  Claim C1, as amended. Every public method raises \<^verbatim>\<open>BridgeError\<close>, and no other
  exception, when a request it sent was answered by a response with a status of 400 or
  more whose decoded body is a JSON object with a falsy \<^verbatim>\<open>ok\<close> (a missing one counts).
  A response whose decoded body is a JSON object with a truthy \<^verbatim>\<open>ok\<close> is returned by
  \<^verbatim>\<open>_get\<close> and \<^verbatim>\<open>_post\<close> without raising, whatever its status, and no public method
  raises \<^verbatim>\<open>BridgeError\<close> when the last request it sent got such a response.
\<close>

theorem bridge_error_on_rejected_response:
  "(\<forall>rq \<in> set (issued (invoke t c s)).
      (\<exists>status kvs. t rq = Reply status (Decoded (JObj kvs))
         \<and> \<not> truthy (ok_of kvs) \<and> 400 \<le> status)
      \<longrightarrow> (\<exists>m. result (invoke t c s) = Inl (BridgeError m)))
   \<and> (t (get_request s path) = Reply sta (Decoded (JObj kva)) \<and> truthy (ok_of kva)
        \<longrightarrow> result (priv_get t path s) = Inr (JObj kva))
   \<and> (t (post_request s path b timeout) = Reply stb (Decoded (JObj kvb)) \<and> truthy (ok_of kvb)
        \<longrightarrow> result (priv_post t path b timeout s) = Inr (JObj kvb))
   \<and> ((\<exists>status kvs. t (last (issued (invoke t c s))) = Reply status (Decoded (JObj kvs))
          \<and> truthy (ok_of kvs))
        \<longrightarrow> \<not> is_bridge_error (result (invoke t c s)))"
proof (intro conjI ballI impI)
  fix rq
  assume member: "rq \<in> set (issued (invoke t c s))"
    and "\<exists>status kvs. t rq = Reply status (Decoded (JObj kvs))
           \<and> \<not> truthy (ok_of kvs) \<and> 400 \<le> status"
  then have rej: "rejected (t rq)"
    by (auto simp: rejected_def receive_bridge_error ok_of_def)
  have d: "\<forall>q \<in> set (butlast (issued (invoke t c s))). accepted (t q)"
    "is_bridge_error (result (invoke t c s)) \<longleftrightarrow>
       issued (invoke t c s) \<noteq> [] \<and> rejected (t (last (issued (invoke t c s))))"
    using disciplined_invoke [of t c] by (simp_all add: disciplined_def)
  from rej d(1) accepted_not_rejected have "rq \<notin> set (butlast (issued (invoke t c s)))"
    by blast
  with member in_butlast_or_last have "rq = last (issued (invoke t c s))"
    by fastforce
  with rej member d(2) have "is_bridge_error (result (invoke t c s))"
    by auto
  then show "\<exists>m. result (invoke t c s) = Inl (BridgeError m)"
    by (simp add: is_bridge_error_iff)
next
  assume "t (get_request s path) = Reply sta (Decoded (JObj kva)) \<and> truthy (ok_of kva)"
  then show "result (priv_get t path s) = Inr (JObj kva)"
    by (simp add: priv_get_run result_def receive_accepts)
next
  assume "t (post_request s path b timeout) = Reply stb (Decoded (JObj kvb)) \<and> truthy (ok_of kvb)"
  then show "result (priv_post t path b timeout s) = Inr (JObj kvb)"
    by (simp add: priv_post_run result_def receive_accepts)
next
  assume "\<exists>status kvs. t (last (issued (invoke t c s))) = Reply status (Decoded (JObj kvs))
            \<and> truthy (ok_of kvs)"
  then show "\<not> is_bridge_error (result (invoke t c s))"
    using bridge_error_invoke [of t c s] by (auto simp: ok_of_def)
qed

text \<open>
  A status 404 answer without \<^verbatim>\<open>ok\<close> makes \<^verbatim>\<open>log\<close> raise \<^verbatim>\<open>BridgeError\<close>. A status
  500 answer with \<^verbatim>\<open>ok: true\<close> is returned by \<^verbatim>\<open>_get\<close> and \<^verbatim>\<open>_post\<close>, and
  \<^verbatim>\<open>run_and_capture\<close>, whose \<^verbatim>\<open>strip\<close> then meets a \<^verbatim>\<open>stdout\<close> that is no string,
  raises something, but not \<^verbatim>\<open>BridgeError\<close>.
\<close>

theorem bridge_error_on_rejected_response_witness:
  "result (invoke (always (Reply 404 (Decoded (JObj [])))) Log local_3131)
     = Inl (BridgeError (RequestFailed ''GET'' ''/log'' (JObj [])))
   \<and> result (priv_get (always (Reply 500 (Decoded (JObj [(''ok'', JBool True)])))) ''/health'' local_3131)
     = Inr (JObj [(''ok'', JBool True)])
   \<and> result (priv_post (always (Reply 500 (Decoded (JObj [(''ok'', JBool True)])))) ''/keep-going'' [] 300
        local_3131)
     = Inr (JObj [(''ok'', JBool True)])
   \<and> \<not> is_bridge_error (result (invoke
        (always (Reply 500 (Decoded (JObj [(''ok'', JBool True), (''stdout'', JNull)]))))
        (RunAndCapture ''ls'' [] 120) local_3131))"
proof -
  have run: "invoke (always (Reply 404 (Decoded (JObj [])))) Log local_3131
               = (Inl (BridgeError (RequestFailed ''GET'' ''/log'' (JObj []))), local_3131,
                  [get_request local_3131 ''/log''])"
    by (simp add: log_def unwrap_get_run always_def receive_def)
  from bridge_error_on_rejected_response
    [of "always (Reply 404 (Decoded (JObj [])))" Log local_3131]
  have "\<exists>m. result (invoke (always (Reply 404 (Decoded (JObj [])))) Log local_3131)
              = Inl (BridgeError m)"
    unfolding run by (simp add: issued_def always_def ok_of_def)
  then have a: "result (invoke (always (Reply 404 (Decoded (JObj [])))) Log local_3131)
     = Inl (BridgeError (RequestFailed ''GET'' ''/log'' (JObj [])))"
    unfolding run by (simp add: result_def)
  have b: "result (priv_get (always (Reply 500 (Decoded (JObj [(''ok'', JBool True)])))) ''/health''
             local_3131) = Inr (JObj [(''ok'', JBool True)])"
    using bridge_error_on_rejected_response
      [where t = "always (Reply 500 (Decoded (JObj [(''ok'', JBool True)])))" and path = "''/health''"
         and s = local_3131 and sta = 500 and kva = "[(''ok'', JBool True)]"]
    by (simp add: always_def ok_of_def)
  have c: "result (priv_post (always (Reply 500 (Decoded (JObj [(''ok'', JBool True)])))) ''/keep-going'' [] 300
        local_3131) = Inr (JObj [(''ok'', JBool True)])"
    using bridge_error_on_rejected_response
      [where t = "always (Reply 500 (Decoded (JObj [(''ok'', JBool True)])))" and path = "''/keep-going''"
         and s = local_3131 and b = "[]" and timeout = 300 and stb = 500
         and kvb = "[(''ok'', JBool True)]"]
    by (simp add: always_def ok_of_def)
  have d: "\<not> is_bridge_error (result (invoke
        (always (Reply 500 (Decoded (JObj [(''ok'', JBool True), (''stdout'', JNull)]))))
        (RunAndCapture ''ls'' [] 120) local_3131))"
    using bridge_error_on_rejected_response
      [where t = "always (Reply 500 (Decoded (JObj [(''ok'', JBool True), (''stdout'', JNull)])))"
         and c = "RunAndCapture ''ls'' [] 120" and s = local_3131]
    by (simp add: always_def ok_of_def)
  from a b c d show ?thesis by simp
qed

text \<open>
  Claim C1 as stated fails: a response with status 500 is not a success, yet with a
  truthy \<^verbatim>\<open>ok\<close> in its body \<^verbatim>\<open>health\<close> returns it and raises nothing.
\<close>

theorem status_500_with_ok_is_returned:
  "result (invoke (always (Reply 500 (Decoded (JObj [(''ok'', JBool True)])))) Health local_3131)
     = Inr (JObj [(''ok'', JBool True)])"
  by (simp add: health_def priv_get_run result_def always_def receive_def)

text \<open>
  Transport failures are another matter. The class docstring (line 37) promises
  \<^verbatim>\<open>BridgeError\<close> on a network failure, and \<^verbatim>\<open>_discover_port\<close> turns every exception
  into one, but \<^verbatim>\<open>_get\<close> and \<^verbatim>\<open>_post\<close> have no \<^verbatim>\<open>try\<close>: a refused connection, a
  timeout and an undecodable body leave \<^verbatim>\<open>health\<close>, \<^verbatim>\<open>prompt\<close> and \<^verbatim>\<open>log\<close> as the
  built-in exception.
\<close>

theorem transport_failure_escapes:
  "result (invoke (always Refused) Health local_3131) = Inl ConnectionRefusedError
   \<and> result (invoke (always TimedOut) (Prompt ''hi'' [] [] 300 None) local_3131) = Inl TimeoutError
   \<and> result (invoke (always (Reply 200 Malformed)) Log local_3131) = Inl JSONDecodeError
   \<and> \<not> is_bridge_error (result (invoke (always Refused) Health local_3131))
   \<and> \<not> is_bridge_error (result (invoke (always TimedOut) (Prompt ''hi'' [] [] 300 None) local_3131))
   \<and> \<not> is_bridge_error (result (invoke (always (Reply 200 Malformed)) Log local_3131))"
  by (simp add: method_defs unwrap_get_run unwrap_post_run priv_get_run result_def always_def
      receive_def)

section \<open>Port discovery\<close>

lemma probe_ports_find:
  "probe_ports t h ps =
     (case find (qualifies t h) ps of
        None \<Rightarrow> (Inl (BridgeError (NoBridgeFound BRIDGE_PORTS)), map (health_probe h) ps)
      | Some p \<Rightarrow> (Inr p, map (health_probe h) (takeWhile (\<lambda>q. \<not> qualifies t h q) ps @ [p])))"
proof (induction ps)
  case Nil
  show ?case by simp
next
  case (Cons p ps)
  show ?case
  proof (cases "qualifies t h p")
    case True
    then show ?thesis
      by (auto simp: qualifies_def health_probe_def split: sum.splits)
  next
    case False
    then show ?thesis
      using Cons.IH
      by (auto simp: qualifies_def health_probe_def split: sum.splits option.splits)
  qed
qed

lemma probe_ports_take: "\<exists>n. snd (probe_ports t h ps) = map (health_probe h) (take n ps)"
proof (induction ps)
  case Nil
  show ?case by simp
next
  case (Cons p ps)
  then obtain n where n: "snd (probe_ports t h ps) = map (health_probe h) (take n ps)" by blast
  have "snd (probe_ports t h (p # ps)) = map (health_probe h) (take 1 (p # ps))
        \<or> snd (probe_ports t h (p # ps)) = map (health_probe h) (take (Suc n) (p # ps))"
    using n by (auto simp: health_probe_def split: sum.splits prod.splits)
  then show ?case by blast
qed


lemma init_probes: "\<exists>n. snd (init t h p) = map (health_probe h) (take n BRIDGE_PORTS)"
proof -
  obtain n where n: "snd (probe_ports t h BRIDGE_PORTS) = map (health_probe h) (take n BRIDGE_PORTS)"
    using probe_ports_take by blast
  have "snd (init t h p) = [] \<or> snd (init t h p) = snd (probe_ports t h BRIDGE_PORTS)"
    by (auto simp: init_def priv_discover_port_def Let_def split: option.splits prod.splits sum.splits)
  then show ?thesis
  proof
    assume "snd (init t h p) = []"
    then have "snd (init t h p) = map (health_probe h) (take 0 BRIDGE_PORTS)" by simp
    then show ?thesis by blast
  next
    assume "snd (init t h p) = snd (probe_ports t h BRIDGE_PORTS)"
    with n show ?thesis by auto
  qed
qed


lemma rq_port_health_probe: "map rq_port (map (health_probe h) ps) = ps"
  by (induction ps) (simp_all add: health_probe_def probe_def)

lemma qualifies_only_3133:
  "qualifies only_3133 h 3131 = False"
  "qualifies only_3133 h 3132 = False"
  "qualifies only_3133 h 3133 = True"
  by (simp_all add: qualifies_def only_3133_def priv_raw_get_def probe_def)



section \<open>The pipeline\<close>

lemma run_first_strs:
  "run_first t (map JStr fs) s =
     (case first_runnable fs of
        None \<Rightarrow> (Inr [], s, [])
      | Some f \<Rightarrow> run_and_capture t (shell_command f) [] 120 s)"
  by (induction fs)
    (simp_all add: first_runnable_def interpreter_def shell_command_def run_command_def dq_def
      ret_def)

lemma slack_summary_text: "slack_summary (comma_joined fs) captured = summary_text fs captured"
  by (simp add: slack_summary_def summary_text_def nl_def)

lemma join_items_comma: "join_items '', '' (map JStr fs) = Inr (comma_joined fs)"
  by (induction fs rule: comma_joined.induct) simp_all

lemma run_and_capture_run:
  assumes "t (run_request s command) = Reply status (Decoded (JObj kvs))"
    and "status < 400 \<or> truthy (ok_of kvs)"
    and "dict_get (JObj kvs) ''stdout'' (JStr []) = Inr (JStr stdout)"
  shows "run_and_capture t command [] 120 s = (Inr (strip stdout), s, [run_request s command])"
  using assms(1,3) receive_accepts [OF assms(2)]
  by (simp add: run_and_capture_def run_terminal_def and_then_apply priv_post_run lift_def
      run_request_post)

lemma slack_post_run:
  assumes "t (slack_request s text) = Reply status (Decoded (JObj kvs))"
    and "status < 400 \<or> truthy (ok_of kvs)"
  shows "\<exists>v. slack_post t text [] s = (Inr v, s, [slack_request s text])"
  using assms(1) receive_accepts [OF assms(2)]
  by (simp add: slack_post_def and_then_apply priv_post_run lift_def slack_request_post
      DEFAULT_TIMEOUT_def)

lemma first_runnable_example: "first_runnable [''notes.txt'', ''a.py'', ''b.js''] = Some ''a.py''"
  by (simp add: first_runnable_def endswith_def)

lemma strip_example: "strip ''  hi '' = ''hi''"
  by (simp add: strip_def py_isspace_def)

text \<open>
  Claim C3. Let \<^verbatim>\<open>copilot_task(task_description, auto_accept=True)\<close> get an accepted
  answer, a dict whose \<^verbatim>\<open>files_changed\<close> is a list \<open>fs\<close> of names (or is missing, \<open>fs\<close>
  empty). When \<^verbatim>\<open>run_result\<close> is true, the first name of \<open>fs\<close> ending in \<^verbatim>\<open>.py\<close> or
  \<^verbatim>\<open>.js\<close>, if there is one, is run with \<^verbatim>\<open>python\<close> or \<^verbatim>\<open>node\<close> (the command is the
  interpreter, a space and the quoted name, run with \<^verbatim>\<open>capture_output\<close>), and no other
  file is; its \<^verbatim>\<open>stdout\<close>, stripped, is the captured output, which is empty when no file
  is run. When \<^verbatim>\<open>slack_report\<close> is true, one summary is posted to Slack. Provided the run
  and the post get accepted answers, the method returns the dict of \<^verbatim>\<open>copilot_task\<close>
  with the captured output under \<^verbatim>\<open>run_output\<close>, and the requests issued are exactly
  these, in this order.
\<close>

theorem ask_then_run_pipeline:
  assumes copilot: "t (copilot_request s task_description) = Reply st1 (Decoded (JObj kvs))"
    and ok1: "st1 < 400 \<or> truthy (ok_of kvs)"
    and files: "dict_get (JObj kvs) ''files_changed'' (JArr []) = Inr (JArr (map JStr fs))"
    and run: "\<forall>f. chosen run_result fs = Some f \<longrightarrow>
                t (run_request s (shell_command f)) = Reply st2 (Decoded (JObj kvs2))
                \<and> (st2 < 400 \<or> truthy (ok_of kvs2))
                \<and> dict_get (JObj kvs2) ''stdout'' (JStr []) = Inr (JStr stdout)"
    and captured: "captured = (case chosen run_result fs of None \<Rightarrow> [] | Some f \<Rightarrow> strip stdout)"
    and slack: "slack_report \<longrightarrow>
                t (slack_request s (summary_text fs captured)) = Reply st3 (Decoded (JObj kvs3))
                \<and> (st3 < 400 \<or> truthy (ok_of kvs3))"
  shows "result (ask_then_run t task_description run_result slack_report s)
           = Inr (JObj (AList.update ''run_output'' (JStr captured) kvs))
       \<and> issued (ask_then_run t task_description run_result slack_report s)
           = copilot_request s task_description
             # (case chosen run_result fs of
                  None \<Rightarrow> []
                | Some f \<Rightarrow> [run_request s (shell_command f)])
             @ (if slack_report then [slack_request s (summary_text fs captured)] else [])"
proof -
  let ?res = "JObj kvs"
  let ?go = "run_result \<and> fs \<noteq> []"
  let ?m1 = "copilot_task t task_description True 60 DEFAULT_TIMEOUT None []"
  let ?m2 = "if run_result
             then and_then (lift (dict_get ?res ''files_changed'' JNull)) (\<lambda>fc. ret (truthy fc))
             else ret False"
  let ?m3 = "if ?go
             then and_then (lift (dict_index ?res ''files_changed'')) (\<lambda>fs.
                  and_then (lift (py_iter fs)) (run_first t))
             else ret []"
  let ?m4 = "if slack_report
             then and_then (lift (dict_get ?res ''files_changed'' (JArr []))) (\<lambda>changed.
                  and_then (lift (py_join '', '' changed)) (\<lambda>joined.
                  and_then (slack_post t (slack_summary joined captured) []) (\<lambda>posted. ret ())))
             else ret ()"
  let ?l3 = "case chosen run_result fs of
               None \<Rightarrow> []
             | Some f \<Rightarrow> [run_request s (shell_command f)]"
  let ?l4 = "if slack_report then [slack_request s (summary_text fs captured)] else []"
  have fc: "map_of kvs ''files_changed'' = None \<and> fs = []
            \<or> map_of kvs ''files_changed'' = Some (JArr (map JStr fs))"
    using files by (auto split: option.splits)
  have step1: "?m1 s = (Inr ?res, s, [copilot_request s task_description])"
    using copilot receive_accepts [OF ok1]
    by (simp add: copilot_task_def priv_post_run copilot_request_post DEFAULT_TIMEOUT_def)
  have step2: "?m2 s = (Inr ?go, s, [])"
    using fc by (auto simp: and_then_apply lift_def ret_def)
  have none: "chosen run_result fs = None" if "\<not> ?go"
    using that by (auto simp: chosen_def first_runnable_def)
  have step3: "?m3 s = (Inr captured, s, ?l3)"
  proof (cases ?go)
    case False
    with none captured show ?thesis by (auto simp: ret_def)
  next
    case True
    with fc have present: "map_of kvs ''files_changed'' = Some (JArr (map JStr fs))" by auto
    have ch: "chosen run_result fs = first_runnable fs"
      using True by (simp add: chosen_def)
    show ?thesis
    proof (cases "first_runnable fs")
      case None
      with True present ch captured show ?thesis
        by (simp add: and_then_apply lift_def run_first_strs)
    next
      case (Some f)
      with run ch have r: "t (run_request s (shell_command f)) = Reply st2 (Decoded (JObj kvs2))"
        "st2 < 400 \<or> truthy (ok_of kvs2)"
        "dict_get (JObj kvs2) ''stdout'' (JStr []) = Inr (JStr stdout)"
        by simp_all
      have "run_and_capture t (shell_command f) [] 120 s
              = (Inr (strip stdout), s, [run_request s (shell_command f)])"
        using r by (rule run_and_capture_run)
      with True present ch captured Some show ?thesis
        by (simp add: and_then_apply lift_def run_first_strs)
    qed
  qed
  have join: "py_join '', '' (case map_of kvs ''files_changed'' of None \<Rightarrow> JArr [] | Some v \<Rightarrow> v)
                = Inr (comma_joined fs)"
    using fc by (auto simp: py_join_def join_items_comma)
  have step4: "?m4 s = (Inr (), s, ?l4)"
  proof (cases slack_report)
    case False
    then show ?thesis by (simp add: ret_def)
  next
    case True
    with slack have "\<exists>v. slack_post t (summary_text fs captured) [] s
         = (Inr v, s, [slack_request s (summary_text fs captured)])"
      by (intro slack_post_run [of t s _ st3 kvs3]) simp_all
    then obtain v where
      "slack_post t (summary_text fs captured) [] s
         = (Inr v, s, [slack_request s (summary_text fs captured)])"
      by blast
    with True join show ?thesis
      by (simp add: and_then_apply lift_def ret_def slack_summary_text)
  qed
  have "ask_then_run t task_description run_result slack_report s
          = (Inr (JObj (AList.update ''run_output'' (JStr captured) kvs)), s,
             copilot_request s task_description # ?l3 @ ?l4)"
    apply (simp only: ask_then_run_def
        and_then_run [where m = ?m1 and s = s, OF step1]
        and_then_run [where m = ?m2 and s = s, OF step2]
        and_then_run [where m = ?m3 and s = s, OF step3]
        and_then_run [where m = ?m4 and s = s, OF step4])
    apply (simp add: lift_def)
    done
  then show ?thesis by (simp add: run_defs)
qed

text \<open>
  The task changes \<^verbatim>\<open>notes.txt\<close>, \<^verbatim>\<open>a.py\<close> and \<^verbatim>\<open>b.js\<close>: the command
  \<^verbatim>\<open>python "a.py"\<close> is run, its output \<^verbatim>\<open>"  hi "\<close> is stored stripped, and the summary
  is posted: three requests. Then a task that changes \<^verbatim>\<open>x.txt\<close>, \<^verbatim>\<open>b.js\<close> and
  \<^verbatim>\<open>a.py\<close>, with no Slack report: \<^verbatim>\<open>node "b.js"\<close> is run, the answer has no
  \<^verbatim>\<open>stdout\<close>, and the output stored is empty.
\<close>

theorem ask_then_run_pipeline_witness:
  "result (ask_then_run pipeline_bridge ''task'' True True local_3131)
     = Inr (JObj [(''ok'', JBool True),
                  (''files_changed'', JArr [JStr ''notes.txt'', JStr ''a.py'', JStr ''b.js'']),
                  (''run_output'', JStr ''hi'')])
   \<and> issued (ask_then_run pipeline_bridge ''task'' True True local_3131)
     = [\<lparr>rq_host = ''127.0.0.1'', rq_port = 3131, rq_timeout = 400, rq_verb = POST,
         rq_path = ''/copilot-task'',
         rq_body = Some [(''prompt'', JStr ''task''), (''auto_accept'', JBool True),
                         (''watch_secs'', JInt 60), (''timeout'', JInt 300)]\<rparr>,
        \<lparr>rq_host = ''127.0.0.1'', rq_port = 3131, rq_timeout = 145, rq_verb = POST,
         rq_path = ''/run-terminal'',
         rq_body = Some [(''command'', JStr (''python '' @ [CHR 0x22] @ ''a.py'' @ [CHR 0x22])),
                         (''capture_output'', JBool True), (''timeout'', JInt 120)]\<rparr>,
        \<lparr>rq_host = ''127.0.0.1'', rq_port = 3131, rq_timeout = 310, rq_verb = POST,
         rq_path = ''/slack-post'',
         rq_body = Some [(''text'',
           JStr (''Task complete.'' @ [CHR 0x0A] @ ''Changed: notes.txt, a.py, b.js'' @ [CHR 0x0A]
                 @ ''Output:'' @ [CHR 0x0A] @ ''```'' @ [CHR 0x0A] @ ''hi'' @ [CHR 0x0A] @ ''```''))]\<rparr>]
   \<and> result (ask_then_run node_bridge ''task'' True False local_3131)
     = Inr (JObj [(''files_changed'', JArr [JStr ''x.txt'', JStr ''b.js'', JStr ''a.py'']),
                  (''run_output'', JStr [])])
   \<and> issued (ask_then_run node_bridge ''task'' True False local_3131)
     = [\<lparr>rq_host = ''127.0.0.1'', rq_port = 3131, rq_timeout = 400, rq_verb = POST,
         rq_path = ''/copilot-task'',
         rq_body = Some [(''prompt'', JStr ''task''), (''auto_accept'', JBool True),
                         (''watch_secs'', JInt 60), (''timeout'', JInt 300)]\<rparr>,
        \<lparr>rq_host = ''127.0.0.1'', rq_port = 3131, rq_timeout = 145, rq_verb = POST,
         rq_path = ''/run-terminal'',
         rq_body = Some [(''command'', JStr (''node '' @ [CHR 0x22] @ ''b.js'' @ [CHR 0x22])),
                         (''capture_output'', JBool True), (''timeout'', JInt 120)]\<rparr>]"
proof -
  have a: "result (ask_then_run pipeline_bridge ''task'' True True local_3131)
     = Inr (JObj [(''ok'', JBool True),
                  (''files_changed'', JArr [JStr ''notes.txt'', JStr ''a.py'', JStr ''b.js'']),
                  (''run_output'', JStr ''hi'')])
   \<and> issued (ask_then_run pipeline_bridge ''task'' True True local_3131)
     = [copilot_request local_3131 ''task'', run_request local_3131 (shell_command ''a.py''),
        slack_request local_3131 (summary_text [''notes.txt'', ''a.py'', ''b.js''] ''hi'')]"
    using ask_then_run_pipeline
      [where t = pipeline_bridge and s = local_3131 and task_description = "''task''"
         and ?st1.0 = 200
         and kvs = "[(''ok'', JBool True),
               (''files_changed'', JArr [JStr ''notes.txt'', JStr ''a.py'', JStr ''b.js''])]"
         and fs = "[''notes.txt'', ''a.py'', ''b.js'']" and run_result = True and slack_report = True
         and ?st2.0 = 200 and ?kvs2.0 = "[(''stdout'', JStr ''  hi ''), (''exit_code'', JInt 0)]"
         and stdout = "''  hi ''" and captured = "''hi''"
         and ?st3.0 = 200 and ?kvs3.0 = "[(''ok'', JBool True)]"]
    by (simp add: pipeline_bridge_def copilot_request_def run_request_def slack_request_def
        chosen_def first_runnable_example strip_example ok_of_def)
  have b: "result (ask_then_run node_bridge ''task'' True False local_3131)
     = Inr (JObj [(''files_changed'', JArr [JStr ''x.txt'', JStr ''b.js'', JStr ''a.py'']),
                  (''run_output'', JStr [])])
   \<and> issued (ask_then_run node_bridge ''task'' True False local_3131)
     = [copilot_request local_3131 ''task'', run_request local_3131 (shell_command ''b.js'')]"
    using ask_then_run_pipeline
      [where t = node_bridge and s = local_3131 and task_description = "''task''"
         and ?st1.0 = 200
         and kvs = "[(''files_changed'', JArr [JStr ''x.txt'', JStr ''b.js'', JStr ''a.py''])]"
         and fs = "[''x.txt'', ''b.js'', ''a.py'']" and run_result = True and slack_report = False
         and ?st2.0 = 200 and ?kvs2.0 = "[(''exit_code'', JInt 0)]"
         and stdout = "[]" and captured = "[]"]
    by (simp add: node_bridge_def copilot_request_def run_request_def
        chosen_def first_runnable_def endswith_def strip_def ok_of_def)
  from a b show ?thesis
    by (simp add: copilot_request_def run_request_def slack_request_def shell_command_def
        interpreter_def endswith_def summary_text_def local_3131_def BRIDGE_HOST_def)
qed

section \<open>Round trips per invocation\<close>

text \<open>
  Claim C4, as amended. Every invocation of a public method sends its requests to the
  host and port of the client and to nothing else. Every method but \<^verbatim>\<open>ask_then_run\<close>
  performs exactly one round trip. \<^verbatim>\<open>ask_then_run\<close> performs between one and three:
  \<^verbatim>\<open>/copilot-task\<close> first, then at most one \<^verbatim>\<open>/run-terminal\<close>, then at most one
  \<^verbatim>\<open>/slack-post\<close>.
\<close>

theorem round_trips_per_call:
  "1 \<le> length (issued (invoke t c s)) \<and> length (issued (invoke t c s)) \<le> 3
   \<and> (\<not> is_pipeline c \<longrightarrow> length (issued (invoke t c s)) = 1)
   \<and> (is_pipeline c \<longrightarrow>
        subseq (map rq_path (issued (invoke t c s))) [''/copilot-task'', ''/run-terminal'', ''/slack-post'']
        \<and> rq_path (hd (issued (invoke t c s))) = ''/copilot-task'')
   \<and> (\<forall>rq \<in> set (issued (invoke t c s)). rq_host rq = host s \<and> rq_port rq = port s)"
proof -
  have target: "\<forall>rq \<in> set (issued (invoke t c s)). rq_host rq = host s \<and> rq_port rq = port s"
    using disciplined_invoke [of t c] by (simp add: disciplined_def)
  have least: "1 \<le> length (issued (invoke t c s))"
    using issued_nonempty [of t c s] by (cases "issued (invoke t c s)") simp_all
  show ?thesis
  proof (cases "is_pipeline c")
    case False
    with target issued_single [of c t s] show ?thesis by simp
  next
    case True
    then obtain d rr sr where c: "c = AskThenRun d rr sr" by (rule pipeline_cases)
    have sub: "subseq (map rq_path (issued (invoke t c s)))
                 [''/copilot-task'', ''/run-terminal'', ''/slack-post'']"
      unfolding c by (rule pipeline_paths)
    from list_emb_length [OF sub] have most: "length (issued (invoke t c s)) \<le> 3" by simp
    have first: "rq_path (hd (issued (invoke t c s))) = ''/copilot-task''"
      using issued_ask_then_run_first [of t d rr sr s] c
      by (auto simp: copilot_request_def post_request_def)
    from True target least most sub first show ?thesis by simp
  qed
qed

text \<open>One round trip for \<^verbatim>\<open>health\<close>; the pipeline without a run stays within its paths.\<close>

theorem round_trips_per_call_witness:
  "length (issued (invoke (always Refused) Health local_3131)) = 1
   \<and> subseq (map rq_path (issued (invoke pipeline_bridge (AskThenRun ''task'' False True) local_3131)))
       [''/copilot-task'', ''/run-terminal'', ''/slack-post'']
   \<and> length (issued (invoke pipeline_bridge (AskThenRun ''task'' False True) local_3131)) \<le> 3"
  using round_trips_per_call [of "always Refused" Health local_3131]
    round_trips_per_call [of pipeline_bridge "AskThenRun ''task'' False True" local_3131]
  by (simp add: is_pipeline_def)

text \<open>
  Claim C4 as stated fails: one invocation of \<^verbatim>\<open>ask_then_run\<close>, with a changed
  \<^verbatim>\<open>.py\<close> file and the Slack report asked for, performs three round trips.
\<close>

theorem pipeline_three_round_trips:
  "length (issued (invoke pipeline_bridge (AskThenRun ''task'' True True) local_3131)) = 3"
  by (simp add: ask_then_run_def copilot_task_def run_and_capture_def run_terminal_def slack_post_def
      and_then_apply priv_post_run lift_def ret_def issued_def pipeline_bridge_def post_request_def
      receive_def endswith_def py_join_def)

section \<open>When \<^verbatim>\<open>BridgeError\<close> is raised\<close>

text \<open>
  Claim C5. \<^verbatim>\<open>_get\<close> and \<^verbatim>\<open>_post\<close> raise \<^verbatim>\<open>BridgeError\<close> exactly when the
  transport gave a response whose decoded body has a falsy \<^verbatim>\<open>ok\<close> (as \<^verbatim>\<open>data.get("ok")\<close>
  reads it, so a missing key counts) and whose status is at least 400. A response with a
  truthy \<^verbatim>\<open>ok\<close> is returned whatever its status, and a response with a status below 400
  is returned whatever its \<^verbatim>\<open>ok\<close>. Hence a public method raises \<^verbatim>\<open>BridgeError\<close>
  exactly when the last request it issued got such a response.
\<close>

theorem bridge_error_iff_falsy_ok_and_status:
  "(is_bridge_error (result (priv_get t path s)) \<longleftrightarrow>
      (\<exists>status data ok. t (get_request s path) = Reply status (Decoded data)
         \<and> dict_get data ''ok'' JNull = Inr ok \<and> \<not> truthy ok \<and> 400 \<le> status))
   \<and> (is_bridge_error (result (priv_post t path b timeout s)) \<longleftrightarrow>
      (\<exists>status data ok. t (post_request s path b timeout) = Reply status (Decoded data)
         \<and> dict_get data ''ok'' JNull = Inr ok \<and> \<not> truthy ok \<and> 400 \<le> status))
   \<and> (dict_get da ''ok'' JNull = Inr oka \<and> truthy oka \<longrightarrow>
         (t (get_request s path) = Reply sta (Decoded da) \<longrightarrow>
            result (priv_get t path s) = Inr da)
       \<and> (t (post_request s path b timeout) = Reply sta (Decoded da) \<longrightarrow>
            result (priv_post t path b timeout s) = Inr da))
   \<and> (dict_get db ''ok'' JNull = Inr okb \<and> stb < 400 \<longrightarrow>
         (t (get_request s path) = Reply stb (Decoded db) \<longrightarrow>
            result (priv_get t path s) = Inr db)
       \<and> (t (post_request s path b timeout) = Reply stb (Decoded db) \<longrightarrow>
            result (priv_post t path b timeout s) = Inr db))
   \<and> (is_bridge_error (result (invoke t c s)) \<longleftrightarrow>
      (\<exists>status data ok. t (last (issued (invoke t c s))) = Reply status (Decoded data)
         \<and> dict_get data ''ok'' JNull = Inr ok \<and> \<not> truthy ok \<and> 400 \<le> status))"
  using bridge_error_invoke [of t c s]
  by (simp add: priv_get_run priv_post_run result_def receive_bridge_error
      receive_truthy_ok receive_below_400)

text \<open>
  At a status 500 answer with \<^verbatim>\<open>ok: true\<close> both helpers return the body; at a status 200
  answer with \<^verbatim>\<open>ok: false\<close> they return it too; at a status 404 answer without \<^verbatim>\<open>ok\<close>
  they raise.
\<close>

theorem bridge_error_iff_falsy_ok_and_status_witness:
  "result (priv_get (always (Reply 500 (Decoded (JObj [(''ok'', JBool True)])))) ''/health'' local_3131)
     = Inr (JObj [(''ok'', JBool True)])
   \<and> result (priv_post (always (Reply 200 (Decoded (JObj [(''ok'', JBool False)])))) ''/keep-going'' [] 300
        local_3131)
     = Inr (JObj [(''ok'', JBool False)])
   \<and> is_bridge_error (result (priv_get (always (Reply 404 (Decoded (JObj [])))) ''/log'' local_3131))"
proof -
  have a: "result (priv_get (always (Reply 500 (Decoded (JObj [(''ok'', JBool True)])))) ''/health'' local_3131)
     = Inr (JObj [(''ok'', JBool True)])"
    using bridge_error_iff_falsy_ok_and_status
      [where t = "always (Reply 500 (Decoded (JObj [(''ok'', JBool True)])))" and path = "''/health''"
         and s = local_3131 and sta = 500 and da = "JObj [(''ok'', JBool True)]" and oka = "JBool True"]
    by (simp add: always_def)
  have b: "result (priv_post (always (Reply 200 (Decoded (JObj [(''ok'', JBool False)])))) ''/keep-going'' [] 300
        local_3131) = Inr (JObj [(''ok'', JBool False)])"
    using bridge_error_iff_falsy_ok_and_status
      [where t = "always (Reply 200 (Decoded (JObj [(''ok'', JBool False)])))" and path = "''/keep-going''"
         and s = local_3131 and b = "[]" and timeout = 300
         and stb = 200 and db = "JObj [(''ok'', JBool False)]" and okb = "JBool False"]
    by (simp add: always_def)
  have c: "is_bridge_error (result (priv_get (always (Reply 404 (Decoded (JObj [])))) ''/log'' local_3131))"
    using bridge_error_iff_falsy_ok_and_status
      [where t = "always (Reply 404 (Decoded (JObj [])))" and path = "''/log''" and s = local_3131]
    by (simp add: always_def)
  from a b c show ?thesis by simp
qed

section \<open>The client object is not changed\<close>

text \<open>
  Claim C6. After any public method, and after \<^verbatim>\<open>_get\<close> and \<^verbatim>\<open>_post\<close>, the client
  object is what it was before: it has the two fields \<^verbatim>\<open>host\<close> and \<^verbatim>\<open>port\<close>, and
  both keep their values.
\<close>

theorem client_unchanged:
  "after (invoke t c s) = s
   \<and> after (invoke t c s) = \<lparr>host = host s, port = port s\<rparr>
   \<and> after (priv_get t path s) = s
   \<and> after (priv_post t path b timeout s) = s"
  using disciplined_invoke [of t c] disciplined_get [of t path] disciplined_post [of t path b timeout]
  by (simp add: disciplined_def)

theorem client_unchanged_witness:
  "after (invoke pipeline_bridge (AskThenRun ''task'' True True) local_3131)
     = \<lparr>host = ''127.0.0.1'', port = 3131\<rparr>"
  using client_unchanged [of pipeline_bridge "AskThenRun ''task'' True True" local_3131]
  by (simp add: local_3131_def BRIDGE_HOST_def)

section \<open>No retries\<close>

text \<open>
  Claim C7. Construction probes each candidate port at most once: its requests are
  health probes of ports of the list, and no port occurs twice. A method never sends a
  request twice, and every request it issued before its last one got an accepted answer:
  nothing is sent after a transport failure or a rejected response.
\<close>

theorem no_retries:
  "distinct (map rq_port (snd (init t h p)))
   \<and> (\<forall>rq \<in> set (snd (init t h p)). rq = health_probe h (rq_port rq) \<and> rq_port rq \<in> set BRIDGE_PORTS)
   \<and> distinct (issued (invoke t c s))
   \<and> (\<forall>rq \<in> set (butlast (issued (invoke t c s))). accepted (t rq))"
proof -
  obtain n where n: "snd (init t h p) = map (health_probe h) (take n BRIDGE_PORTS)"
    using init_probes by blast
  have d: "distinct BRIDGE_PORTS" by (simp add: BRIDGE_PORTS_def)
  have a: "distinct (map rq_port (snd (init t h p)))"
    unfolding n rq_port_health_probe using d by simp
  have b: "\<forall>rq \<in> set (snd (init t h p)). rq = health_probe h (rq_port rq) \<and> rq_port rq \<in> set BRIDGE_PORTS"
    using in_set_takeD [of _ n BRIDGE_PORTS]
    by (auto simp: n health_probe_def probe_def)
  have e: "\<forall>rq \<in> set (butlast (issued (invoke t c s))). accepted (t rq)"
    using disciplined_invoke [of t c] by (simp add: disciplined_def)
  have "distinct (map rq_path (issued (invoke t c s)))"
  proof (cases "is_pipeline c")
    case False
    then have "length (issued (invoke t c s)) = 1" by (rule issued_single)
    then show ?thesis by (cases "issued (invoke t c s)") simp_all
  next
    case True
    then obtain d rr sr where c: "c = AskThenRun d rr sr" by (rule pipeline_cases)
    have sub: "subseq (map rq_path (issued (invoke t c s)))
                 [''/copilot-task'', ''/run-terminal'', ''/slack-post'']"
      unfolding c by (rule pipeline_paths)
    have "distinct [''/copilot-task'', ''/run-terminal'', ''/slack-post'']" by simp
    with sub show ?thesis
      using subseqs_distinctD in_set_subseqs by blast
  qed
  then have f: "distinct (issued (invoke t c s))"
    by (simp add: distinct_map)
  from a b e f show ?thesis by simp
qed

text \<open>
  Three probes to three ports at construction; three distinct requests in the pipeline,
  of which the first two were accepted.
\<close>

theorem no_retries_witness:
  "map rq_port (snd (init only_3133 ''127.0.0.1'' None)) = [3131, 3132, 3133]
   \<and> distinct (map rq_port (snd (init only_3133 ''127.0.0.1'' None)))
   \<and> length (butlast (issued (invoke pipeline_bridge (AskThenRun ''task'' True True) local_3131))) = 2
   \<and> distinct (issued (invoke pipeline_bridge (AskThenRun ''task'' True True) local_3131))"
proof -
  have a: "map rq_port (snd (init only_3133 ''127.0.0.1'' None)) = [3131, 3132, 3133]"
    by (simp add: init_def priv_discover_port_def probe_ports_find qualifies_only_3133
        BRIDGE_PORTS_def health_probe_def probe_def)
  have b: "length (butlast (issued (invoke pipeline_bridge (AskThenRun ''task'' True True) local_3131))) = 2"
    by (simp add: ask_then_run_def copilot_task_def run_and_capture_def run_terminal_def slack_post_def
        and_then_apply priv_post_run lift_def ret_def issued_def pipeline_bridge_def post_request_def
        receive_def endswith_def py_join_def)
  from a b
    no_retries [of only_3133 "''127.0.0.1''" None Health local_3131]
    no_retries [of pipeline_bridge "''127.0.0.1''" None "AskThenRun ''task'' True True" local_3131]
  show ?thesis by simp
qed

section \<open>Defaults of the unwrapping accessors\<close>

text \<open>
  Claim C8, as amended. Let the response be a dict on which \<^verbatim>\<open>_get\<close> and \<^verbatim>\<open>_post\<close> do
  not raise: its status is below 400 or its \<^verbatim>\<open>ok\<close> is truthy. When the key an accessor
  unwraps is missing from it, the accessor returns its default: \<^verbatim>\<open>prompt\<close> the empty
  string; \<^verbatim>\<open>log\<close>, \<^verbatim>\<open>list_dir\<close>, \<^verbatim>\<open>watch_result\<close>, \<^verbatim>\<open>changes_since\<close>,
  \<^verbatim>\<open>pending_approvals\<close> and \<^verbatim>\<open>keep_going\<close> the empty list; \<^verbatim>\<open>write_file\<close> 0; and
  \<^verbatim>\<open>apply_edit\<close>, \<^verbatim>\<open>open_file\<close>, \<^verbatim>\<open>show_message\<close>, \<^verbatim>\<open>slack_post\<close>, \<^verbatim>\<open>accept_edits\<close>
  and \<^verbatim>\<open>reject_edits\<close> \<^verbatim>\<open>False\<close> (for these the missing key is \<^verbatim>\<open>ok\<close> itself, so the
  status is below 400).
\<close>

theorem accessor_defaults_when_not_raising:
  assumes "\<forall>rq. t rq = Reply status (Decoded (JObj kvs))"
    and "status < 400 \<or> truthy (ok_of kvs)"
  shows "(map_of kvs ''text'' = None \<longrightarrow>
            result (prompt t p model system timeout context_files s) = Inr (JStr []))
       \<and> (map_of kvs ''entries'' = None \<longrightarrow>
            result (log t s) = Inr (JArr []) \<and> result (list_dir t path s) = Inr (JArr []))
       \<and> (map_of kvs ''files'' = None \<longrightarrow>
            result (watch_result t watch_id s) = Inr (JArr [])
            \<and> result (changes_since t timestamp_ms s) = Inr (JArr [])
            \<and> result (pending_approvals t s) = Inr (JArr []))
       \<and> (map_of kvs ''commands_run'' = None \<longrightarrow> result (keep_going t s) = Inr (JArr []))
       \<and> (map_of kvs ''bytes'' = None \<longrightarrow>
            result (write_file t path content create_dirs s) = Inr (JInt 0))
       \<and> (map_of kvs ''ok'' = None \<longrightarrow>
            status < 400
            \<and> result (apply_edit t path old_text new_text s) = Inr (JBool False)
            \<and> result (open_file t path line s) = Inr (JBool False)
            \<and> result (show_message t message level s) = Inr (JBool False)
            \<and> result (slack_post t text channel s) = Inr (JBool False)
            \<and> result (accept_edits t s) = Inr (JBool False)
            \<and> result (reject_edits t s) = Inr (JBool False))"
  using assms receive_accepts [OF assms(2)]
  by (auto simp: method_defs unwrap_get_run unwrap_post_run result_def ok_of_def)

text \<open>An empty dict with status 200: every accessor returns its default.\<close>

theorem accessor_defaults_when_not_raising_witness:
  "result (prompt (always (Reply 200 (Decoded (JObj [])))) ''hi'' [] [] 300 None local_3131) = Inr (JStr [])
   \<and> result (log (always (Reply 200 (Decoded (JObj [])))) local_3131) = Inr (JArr [])
   \<and> result (write_file (always (Reply 200 (Decoded (JObj [])))) ''a'' ''b'' True local_3131) = Inr (JInt 0)
   \<and> result (apply_edit (always (Reply 200 (Decoded (JObj [])))) ''a.py'' ''x'' ''y'' local_3131)
       = Inr (JBool False)"
  using accessor_defaults_when_not_raising
    [where t = "always (Reply 200 (Decoded (JObj [])))" and status = 200 and kvs = "[]"
       and s = local_3131 and p = "''hi''" and model = "[]" and system = "[]" and timeout = 300
       and context_files = None and path = "''a''" and content = "''b''" and create_dirs = True]
    accessor_defaults_when_not_raising
    [where t = "always (Reply 200 (Decoded (JObj [])))" and status = 200 and kvs = "[]"
       and s = local_3131 and path = "''a.py''" and old_text = "''x''" and new_text = "''y''"]
  by (simp add: always_def)

text \<open>
  Claim C8 as stated fails: a status 500 response without \<^verbatim>\<open>ok\<close> makes \<^verbatim>\<open>apply_edit\<close>
  raise \<^verbatim>\<open>BridgeError\<close> instead of returning \<^verbatim>\<open>False\<close>.
\<close>

theorem apply_edit_raises_without_ok:
  "map_of [(''error'', JStr ''no such file'')] ''ok'' = None
   \<and> result (apply_edit (always (Reply 500 (Decoded (JObj [(''error'', JStr ''no such file'')]))))
        ''a.py'' ''x'' ''y'' local_3131)
     = Inl (BridgeError (RequestFailed ''POST'' ''/apply-edit'' (JStr ''no such file'')))"
  by (simp add: apply_edit_def unwrap_post_run result_def always_def receive_def)

section \<open>Falsy arguments\<close>



section \<open>Each call is self-contained\<close>

text \<open>
  Claim C10. The run of a method (its value or exception, and the requests it issues)
  is determined by the method and its arguments, the client's host and port, and the
  outcomes of the requests it issues: two transports that answer these requests alike
  give the same run. A call made before, whatever it was and whatever it was answered,
  changes nothing about it.
\<close>

theorem call_self_contained:
  assumes "\<forall>rq \<in> set (issued (invoke t1 c s)). t2 rq = t1 rq"
  shows "invoke t2 c s = invoke t1 c s
       \<and> invoke t2 c (after (invoke t0 c0 s)) = invoke t1 c s"
proof -
  have same: "invoke t2 c s = invoke t1 c s"
    using coherent_invoke [of c] assms unfolding coherent_def by blast
  have "after (invoke t0 c0 s) = s"
    using disciplined_invoke [of t0 c0] by (simp add: disciplined_def)
  with same show ?thesis by simp
qed

text \<open>
  Two transports that differ everywhere but on \<^verbatim>\<open>/health\<close> give \<^verbatim>\<open>health\<close> the same
  run, also after a pipeline call that the first of them answered.
\<close>

theorem call_self_contained_witness:
  "invoke (always (Reply 200 (Decoded (JObj [(''ok'', JBool True)])))) Health local_3131
     = invoke health_only Health local_3131
   \<and> invoke (always (Reply 200 (Decoded (JObj [(''ok'', JBool True)])))) Health
       (after (invoke pipeline_bridge (AskThenRun ''task'' True True) local_3131))
     = invoke health_only Health local_3131"
proof -
  have "\<forall>rq \<in> set (issued (invoke health_only Health local_3131)).
          always (Reply 200 (Decoded (JObj [(''ok'', JBool True)]))) rq = health_only rq"
    by (simp add: health_def priv_get_run issued_def health_only_def always_def get_request_def)
  then show ?thesis
    by (rule call_self_contained)
qed

end
